theory Spec2Isabelle
  imports Main
begin

section \<open>Schema types\<close>

text \<open>
  The structs of the validator, one record each. Go's string is a byte sequence
  (\<open>string\<close>), \<open>int\<close> is modelled by \<open>int\<close> (the code only compares port numbers, it
  never computes with them), a pointer to a struct is an \<open>option\<close> (\<open>None\<close> for nil), a
  slice is a list, and a \<open>map[string]string\<close> is an optional association list: \<open>None\<close> is
  the nil map, and the order of the list is the order in which \<open>range\<close> visits the
  entries in the run at hand (Go leaves that order open; every theorem below holds for
  each order).
\<close>

record Metadata =
  md_Name :: string
  md_Namespace :: string
  md_Labels :: "(string \<times> string) list option"

record PodOS =
  os_Name :: string

record ContainerPort =
  cp_ContainerPort :: int
  cp_Protocol :: string

record HTTPGetAction =
  hg_Path :: string
  hg_Port :: int

record Probe =
  pb_HTTPGet :: HTTPGetAction

record ResourceRequirements =
  rr_Requests :: "(string \<times> string) list option"
  rr_Limits :: "(string \<times> string) list option"

record Container =
  c_Name :: string
  c_Image :: string
  c_Ports :: "ContainerPort list"
  c_ReadinessProbe :: "Probe option"
  c_LivenessProbe :: "Probe option"
  c_Resources :: ResourceRequirements

record PodSpec =
  ps_OS :: "PodOS option"
  ps_Containers :: "Container list"

record Pod =
  p_APIVersion :: string
  p_Kind :: string
  p_Metadata :: Metadata
  p_Spec :: PodSpec

text \<open>
  The untyped view: the dynamic values that \<open>yaml.Unmarshal\<close> stores in an
  \<open>interface{}\<close>. The code asks only for four dynamic types (\<open>string\<close>, \<open>int\<close>,
  \<open>[]interface{}\<close>, \<open>map[string]interface{}\<close>); \<open>YNil\<close> is the nil interface of a
  null node and \<open>YOther\<close> stands for every other dynamic type (float64, bool, ...).
\<close>

datatype yval =
    YNil
  | YString string
  | YInt int
  | YSeq "yval list"
  | YMap "(string \<times> yval) list"
  | YOther

text \<open>
  The YAML library is not part of the repository. The bytes of the file reach the
  validator only through the two \<open>yaml.Unmarshal\<close> calls, so the content of a file is
  represented by what these calls deliver: the typed structure, the error of the typed
  call (\<open>None\<close> for nil) and the untyped mapping (\<open>[]\<close> when it stays nil).
\<close>

record document =
  typed :: Pod
  typedErr :: "string option"
  rawMap :: "(string \<times> yval) list"

text \<open>\<open>os.ReadFile\<close>: a path yields a read error (its text) or a content.\<close>

type_synonym files = "string \<Rightarrow> string + document"

section \<open>Library functions used by the validator\<close>

subsection \<open>Regular expressions\<close>

text \<open>
  The two patterns use character ranges, literals, concatenation, alternation and
  repetition. Both are anchored with \<open>^\<close> and \<open>$\<close> and carry no flags, so
  \<open>regexp.MatchString\<close> answers whether the whole string belongs to the pattern; the
  matcher below decides that with derivatives.
\<close>

datatype regex =
    Empty
  | Eps
  | Lit char
  | Range char char
  | Cat regex regex
  | Alt regex regex
  | Star regex

abbreviation Plus :: "regex \<Rightarrow> regex" where
  "Plus r \<equiv> Cat r (Star r)"

fun nullable :: "regex \<Rightarrow> bool" where
  "nullable Empty = False"
| "nullable Eps = True"
| "nullable (Lit c) = False"
| "nullable (Range a b) = False"
| "nullable (Cat r s) = (nullable r \<and> nullable s)"
| "nullable (Alt r s) = (nullable r \<or> nullable s)"
| "nullable (Star r) = True"

fun deriv :: "char \<Rightarrow> regex \<Rightarrow> regex" where
  "deriv c Empty = Empty"
| "deriv c Eps = Empty"
| "deriv c (Lit d) = (if c = d then Eps else Empty)"
| "deriv c (Range a b) =
     (if (of_char a :: nat) \<le> of_char c \<and> (of_char c :: nat) \<le> of_char b then Eps else Empty)"
| "deriv c (Cat r s) =
     (if nullable r then Alt (Cat (deriv c r) s) (deriv c s) else Cat (deriv c r) s)"
| "deriv c (Alt r s) = Alt (deriv c r) (deriv c s)"
| "deriv c (Star r) = Cat (deriv c r) (Star r)"

fun matches :: "regex \<Rightarrow> string \<Rightarrow> bool" where
  "matches r [] = nullable r"
| "matches r (c # cs) = matches (deriv c r) cs"

fun word :: "string \<Rightarrow> regex" where
  "word [] = Eps"
| "word (c # cs) = Cat (Lit c) (word cs)"

text \<open>The words of a pattern, to state what the matcher decides.\<close>

inductive_set star :: "string set \<Rightarrow> string set" for L :: "string set" where
  star_nil: "[] \<in> star L"
| star_app: "u \<in> L \<Longrightarrow> v \<in> star L \<Longrightarrow> u @ v \<in> star L"

fun lang :: "regex \<Rightarrow> string set" where
  "lang Empty = {}"
| "lang Eps = {[]}"
| "lang (Lit c) = {[c]}"
| "lang (Range a b) = {[c] | c. (of_char a :: nat) \<le> of_char c \<and> (of_char c :: nat) \<le> of_char b}"
| "lang (Cat r s) = {u @ v | u v. u \<in> lang r \<and> v \<in> lang s}"
| "lang (Alt r s) = lang r \<union> lang s"
| "lang (Star r) = star (lang r)"

subsection \<open>Strings, numbers, paths\<close>

definition HasPrefix :: "string \<Rightarrow> string \<Rightarrow> bool" where
  "HasPrefix s p = (take (length p) s = p)"

fun Contains :: "string \<Rightarrow> string \<Rightarrow> bool" where
  "Contains [] sub = (sub = [])"
| "Contains (c # cs) sub = (HasPrefix (c # cs) sub \<or> Contains cs sub)"

definition is_digit :: "char \<Rightarrow> bool" where
  "is_digit c = ((48::nat) \<le> of_char c \<and> (of_char c :: nat) \<le> 57)"

definition digits_value :: "string \<Rightarrow> int" where
  "digits_value ds = foldl (\<lambda>a c. 10 * a + (of_char c - 48)) 0 ds"

text \<open>
  \<open>strconv.Atoi\<close> on a 64-bit platform: an optional sign, then one or more decimal
  digits, and a value that fits a signed 64-bit integer; \<open>None\<close> is a non-nil error.
\<close>

definition Atoi :: "string \<Rightarrow> int option" where
  "Atoi s =
     (let neg = (s \<noteq> [] \<and> hd s = CHR ''-'');
          ds = (if s \<noteq> [] \<and> (hd s = CHR ''-'' \<or> hd s = CHR ''+'') then tl s else s)
      in if ds = [] \<or> \<not> list_all is_digit ds then None
         else let v = (if neg then - digits_value ds else digits_value ds)
              in if v < - (2 ^ 63) \<or> 2 ^ 63 - 1 < v then None else Some v)"

text \<open>\<open>%d\<close> of a slice index: the decimal digits of a natural number.\<close>

definition digit_char :: "nat \<Rightarrow> char" where
  "digit_char d = char_of (48 + d)"

function show_nat :: "nat \<Rightarrow> string" where
  "show_nat n = (if n < 10 then [digit_char n] else show_nat (n div 10) @ [digit_char (n mod 10)])"
  by pat_completeness auto
termination
  by (relation "measure id") auto

declare show_nat.simps [simp del]

text \<open>
  \<open>filepath.Base\<close> with \<open>/\<close> as separator: the last element of the path, after
  trailing separators are dropped; \<open>.\<close> for the empty path and \<open>/\<close> for a path of
  separators only.
\<close>

definition Base :: "string \<Rightarrow> string" where
  "Base path =
     (if path = [] then ''.''
      else let p = rev (dropWhile (\<lambda>c. c = CHR ''/'') (rev path));
               e = rev (takeWhile (\<lambda>c. c \<noteq> CHR ''/'') (rev p))
           in if e = [] then ''/'' else e)"

abbreviation quoted :: "string \<Rightarrow> string" where
  "quoted v \<equiv> CHR 0x27 # v @ [CHR 0x27]"

section \<open>The rule functions of the source\<close>

definition snake_pattern :: regex where
  "snake_pattern =
     Cat (Plus (Range CHR ''a'' CHR ''z''))
         (Star (Cat (Lit CHR ''_'') (Plus (Range CHR ''a'' CHR ''z''))))"

definition memory_pattern :: regex where
  "memory_pattern =
     Cat (Plus (Range CHR ''0'' CHR ''9''))
         (Alt (word ''Ki'') (Alt (word ''Mi'') (word ''Gi'')))"

definition isSnakeCase :: "string \<Rightarrow> bool" where
  "isSnakeCase s = matches snake_pattern s"

definition isValidMemoryFormat :: "string \<Rightarrow> bool" where
  "isValidMemoryFormat mem = matches memory_pattern mem"

definition isValidImage :: "string \<Rightarrow> bool" where
  "isValidImage img = (HasPrefix img ''registry.bigbrother.io/'' \<and> Contains img '':'')"

section \<open>validatePod and runValidator of yamlvalid.go\<close>

text \<open>
  An output is the list of the texts written to standard output, one element for each
  \<open>Printf\<close> or \<open>Println\<close> call, in the order of the calls and with the final newline.
\<close>

definition osCheck :: "string \<Rightarrow> (string \<times> yval) list \<Rightarrow> string list" where
  "osCheck src raw =
     (case map_of raw ''spec'' of
        Some (YMap spec) \<Rightarrow>
          (case map_of spec ''os'' of
             Some (YString osStr) \<Rightarrow>
               (if osStr \<noteq> ''linux'' \<and> osStr \<noteq> ''windows''
                then [src @ '':10 os has unsupported value '' @ quoted osStr @ ''\<newline>'']
                else [])
           | _ \<Rightarrow> [])
      | _ \<Rightarrow> [])"

definition apiVersionCheck :: "string \<Rightarrow> Pod \<Rightarrow> string list" where
  "apiVersionCheck src pod =
     (if p_APIVersion pod = [] then [src @ '': apiVersion is required\<newline>''] else []) @
     (if p_APIVersion pod \<noteq> [] \<and> p_APIVersion pod \<noteq> ''v1''
      then [src @ '': apiVersion has unsupported value '' @ quoted (p_APIVersion pod) @ ''\<newline>'']
      else [])"

definition kindCheck :: "string \<Rightarrow> Pod \<Rightarrow> string list" where
  "kindCheck src pod =
     (if p_Kind pod = [] then [src @ '': kind is required\<newline>''] else []) @
     (if p_Kind pod \<noteq> [] \<and> p_Kind pod \<noteq> ''Pod''
      then [src @ '': kind has unsupported value '' @ quoted (p_Kind pod) @ ''\<newline>'']
      else [])"

definition metadataCheck :: "string \<Rightarrow> Pod \<Rightarrow> string list" where
  "metadataCheck src pod =
     (if md_Name (p_Metadata pod) = [] then [src @ '':4 name is required\<newline>''] else [])"

definition containersRequired :: "string \<Rightarrow> Pod \<Rightarrow> string list" where
  "containersRequired src pod =
     (if length (ps_Containers (p_Spec pod)) = 0
      then [src @ '': spec.containers is required\<newline>''] else [])"

definition containerPrefix :: "string \<Rightarrow> nat \<Rightarrow> string" where
  "containerPrefix src i = src @ '': spec.containers['' @ show_nat i @ '']''"

definition portPrefix :: "string \<Rightarrow> nat \<Rightarrow> string" where
  "portPrefix prefix j = prefix @ ''.ports['' @ show_nat j @ '']''"

text \<open>\<open>seen\<close> is the map \<open>containerNames\<close>: a missing key reads as false.\<close>

definition nameFormatChecks :: "string \<Rightarrow> (string \<Rightarrow> bool) \<Rightarrow> Container \<Rightarrow> string list" where
  "nameFormatChecks prefix seen c =
     (if \<not> isSnakeCase (c_Name c)
      then [prefix @ ''.name has invalid format '' @ quoted (c_Name c) @ ''\<newline>''] else []) @
     (if seen (c_Name c)
      then [prefix @ ''.name duplicate container name '' @ quoted (c_Name c) @ ''\<newline>'']
      else [])"

definition nameCheck :: "string \<Rightarrow> string \<Rightarrow> (string \<Rightarrow> bool) \<Rightarrow> Container \<Rightarrow> string list" where
  "nameCheck src prefix seen c =
     (if c_Name c = [] then [src @ '':12 name is required\<newline>'']
      else nameFormatChecks prefix seen c)"

definition nameSeen :: "(string \<Rightarrow> bool) \<Rightarrow> Container \<Rightarrow> (string \<Rightarrow> bool)" where
  "nameSeen seen c = (if c_Name c = [] then seen else seen(c_Name c := True))"

definition imageCheck :: "string \<Rightarrow> Container \<Rightarrow> string list" where
  "imageCheck prefix c =
     (if c_Image c = [] then [prefix @ ''.image is required\<newline>'']
      else if \<not> isValidImage (c_Image c)
      then [prefix @ ''.image has invalid format '' @ quoted (c_Image c) @ ''\<newline>'']
      else [])"

definition memoryEntry :: "string \<Rightarrow> string \<Rightarrow> string \<times> string \<Rightarrow> string list" where
  "memoryEntry prefix which e =
     (if fst e = ''memory'' \<and> \<not> isValidMemoryFormat (snd e)
      then [prefix @ ''.resources.'' @ which @ ''.memory has invalid format '' @ quoted (snd e)
              @ ''\<newline>'']
      else [])"

definition cpuEntry :: "string \<Rightarrow> string \<times> string \<Rightarrow> string list" where
  "cpuEntry src e =
     (if fst e = ''cpu''
      then (if Atoi (snd e) = None then [src @ '':30 cpu must be int\<newline>''] else [])
      else [])"

definition requestsCheck :: "string \<Rightarrow> Container \<Rightarrow> string list" where
  "requestsCheck prefix c =
     (case rr_Requests (c_Resources c) of
        None \<Rightarrow> []
      | Some entries \<Rightarrow> concat (map (memoryEntry prefix ''requests'') entries))"

definition limitsCheck :: "string \<Rightarrow> string \<Rightarrow> Container \<Rightarrow> string list" where
  "limitsCheck src prefix c =
     (case rr_Limits (c_Resources c) of
        None \<Rightarrow> []
      | Some entries \<Rightarrow>
          concat (map (\<lambda>e. memoryEntry prefix ''limits'' e @ cpuEntry src e) entries))"

definition portRange :: "string \<Rightarrow> nat \<Rightarrow> ContainerPort \<Rightarrow> string list" where
  "portRange prefix j port =
     (if cp_ContainerPort port \<le> 0 \<or> cp_ContainerPort port \<ge> 65536
      then [portPrefix prefix j @ ''.containerPort value out of range\<newline>''] else [])"

definition portProtocol :: "string \<Rightarrow> nat \<Rightarrow> ContainerPort \<Rightarrow> string list" where
  "portProtocol prefix j port =
     (if cp_Protocol port \<noteq> [] \<and> cp_Protocol port \<noteq> ''TCP'' \<and> cp_Protocol port \<noteq> ''UDP''
      then [portPrefix prefix j @ ''.protocol has unsupported value '' @ quoted (cp_Protocol port)
              @ ''\<newline>'']
      else [])"

fun portsLoop :: "string \<Rightarrow> nat \<Rightarrow> ContainerPort list \<Rightarrow> string list" where
  "portsLoop prefix j [] = []"
| "portsLoop prefix j (port # ports) =
     portRange prefix j port @ portProtocol prefix j port @ portsLoop prefix (Suc j) ports"

definition probeCheck :: "string \<Rightarrow> Probe option \<Rightarrow> string list" where
  "probeCheck probePrefix probe =
     (case probe of
        None \<Rightarrow> []
      | Some pr \<Rightarrow>
          (if hg_Path (pb_HTTPGet pr) = []
           then [probePrefix @ ''.httpGet.path is required\<newline>''] else []) @
          (if hg_Port (pb_HTTPGet pr) \<le> 0 \<or> hg_Port (pb_HTTPGet pr) \<ge> 65536
           then [probePrefix @ ''.httpGet.port value out of range\<newline>''] else []))"

definition containerBody :: "string \<Rightarrow> nat \<Rightarrow> (string \<Rightarrow> bool) \<Rightarrow> Container \<Rightarrow> string list" where
  "containerBody src i seen c =
     nameCheck src (containerPrefix src i) seen c @
     imageCheck (containerPrefix src i) c @
     requestsCheck (containerPrefix src i) c @
     limitsCheck src (containerPrefix src i) c @
     portsLoop (containerPrefix src i) 0 (c_Ports c) @
     probeCheck (containerPrefix src i @ ''.readinessProbe'') (c_ReadinessProbe c) @
     probeCheck (containerPrefix src i @ ''.livenessProbe'') (c_LivenessProbe c)"

fun containersLoop :: "string \<Rightarrow> nat \<Rightarrow> (string \<Rightarrow> bool) \<Rightarrow> Container list \<Rightarrow> string list" where
  "containersLoop src i seen [] = []"
| "containersLoop src i seen (c # cs) =
     containerBody src i seen c @ containersLoop src (Suc i) (nameSeen seen c) cs"

definition topChecks :: "string \<Rightarrow> document \<Rightarrow> string list" where
  "topChecks src doc =
     osCheck src (rawMap doc) @
     apiVersionCheck src (typed doc) @
     kindCheck src (typed doc) @
     metadataCheck src (typed doc) @
     containersRequired src (typed doc)"

definition podChecks :: "string \<Rightarrow> document \<Rightarrow> string list" where
  "podChecks src doc =
     topChecks src doc @
     containersLoop src 0 (\<lambda>n. False) (ps_Containers (p_Spec (typed doc)))"

text \<open>The result of \<open>validatePod\<close>: what it printed, and its error (\<open>None\<close> for nil).\<close>

definition validatePod :: "files \<Rightarrow> string \<Rightarrow> string list \<times> string option" where
  "validatePod fs filePath =
     (case fs filePath of
        Inl e \<Rightarrow> ([], Some (''cannot read file: '' @ e))
      | Inr doc \<Rightarrow>
          (case typedErr doc of
             Some e \<Rightarrow> ([], Some (''invalid YAML format: '' @ e))
           | None \<Rightarrow> (podChecks filePath doc, None)))"

text \<open>
  \<open>runValidator\<close> on the argument vector \<open>os.Args\<close>: what it printed, and the status of
  \<open>os.Exit\<close> when it calls it (\<open>None\<close> when it returns).
\<close>

definition runValidator :: "files \<Rightarrow> string list \<Rightarrow> string list \<times> int option" where
  "runValidator fs args =
     (if length args \<noteq> 2 then ([''Usage: yamlvalid <path-to-yaml-file>\<newline>''], Some 1)
      else case validatePod fs (args ! 1) of
             (out, Some e) \<Rightarrow> (out @ [''Error: '' @ e @ ''\<newline>''], Some 1)
           | (out, None) \<Rightarrow> (out, None))"

text \<open>
  Modelled from the spec: \<open>main\<close>, the caller of \<open>runValidator\<close>, is not among the
  sources. After a validation that returns, "the process terminates with status zero"
  (section 6), as a Go program does when \<open>main\<close> returns.
\<close>

definition exit_status :: "int option \<Rightarrow> int" where
  "exit_status st = (case st of Some n \<Rightarrow> n | None \<Rightarrow> 0)"

section \<open>validatePod and runValidator of the second source file\<close>

text \<open>
  The other complete source file of the repository defines the same two functions with a
  different body: it reports under the base name of the path, checks some fields on the
  untyped mapping before it looks at the error of the typed parse, and returns nil when
  that parse failed. Its functions carry the suffix \<open>_raw\<close> here.
\<close>

definition metaNameCheck_raw :: "string \<Rightarrow> (string \<times> yval) list \<Rightarrow> string list" where
  "metaNameCheck_raw fileName raw =
     (case map_of raw ''metadata'' of
        Some (YMap meta) \<Rightarrow>
          (case map_of meta ''name'' of
             Some (YString nameStr) \<Rightarrow>
               (if nameStr = [] then [fileName @ '':4 name is required\<newline>''] else [])
           | Some _ \<Rightarrow> []
           | None \<Rightarrow> [fileName @ '':4 name is required\<newline>''])
      | _ \<Rightarrow> [])"

text \<open>
  The lookup \<open>rawMap["spec"]["containers"][0]\<close> as a mapping, which the source repeats
  before each of the four checks on the first container.
\<close>

definition firstContainer_raw :: "(string \<times> yval) list \<Rightarrow> (string \<times> yval) list option" where
  "firstContainer_raw raw =
     (case map_of raw ''spec'' of
        Some (YMap spec) \<Rightarrow>
          (case map_of spec ''containers'' of
             Some (YSeq (YMap container # rest)) \<Rightarrow> Some container
           | _ \<Rightarrow> None)
      | _ \<Rightarrow> None)"

definition portCheck_raw :: "string \<Rightarrow> (string \<times> yval) list \<Rightarrow> string list" where
  "portCheck_raw fileName raw =
     (case firstContainer_raw raw of
        Some container \<Rightarrow>
          (case map_of container ''ports'' of
             Some (YSeq (YMap portObj # rest)) \<Rightarrow>
               (case map_of portObj ''containerPort'' of
                  Some (YInt portInt) \<Rightarrow>
                    (if portInt \<le> 0 \<or> portInt \<ge> 65536
                     then [fileName @ '':15 containerPort value out of range\<newline>''] else [])
                | _ \<Rightarrow> [])
           | _ \<Rightarrow> [])
      | None \<Rightarrow> [])"

definition probeCheck_raw :: "string \<Rightarrow> string \<Rightarrow> (string \<times> yval) list \<Rightarrow> string list" where
  "probeCheck_raw fileName probeKey raw =
     (case firstContainer_raw raw of
        Some container \<Rightarrow>
          (case map_of container probeKey of
             Some (YMap probe) \<Rightarrow>
               (case map_of probe ''httpGet'' of
                  Some (YMap httpGet) \<Rightarrow>
                    (case map_of httpGet ''port'' of
                       Some (YInt portInt) \<Rightarrow>
                         (if portInt \<le> 0 \<or> portInt \<ge> 65536
                          then [fileName @ '':24 port value out of range\<newline>''] else [])
                     | _ \<Rightarrow> [])
                | _ \<Rightarrow> [])
           | _ \<Rightarrow> [])
      | None \<Rightarrow> [])"

definition cpuValue_raw :: "string \<Rightarrow> (string \<times> yval) list \<Rightarrow> string list" where
  "cpuValue_raw fileName m =
     (case map_of m ''cpu'' of
        None \<Rightarrow> []
      | Some (YString v) \<Rightarrow>
          (if Atoi v = None then [fileName @ '':27 cpu must be int\<newline>''] else [])
      | Some (YInt n) \<Rightarrow> []
      | Some _ \<Rightarrow> [fileName @ '':27 cpu must be int\<newline>''])"

definition cpuCheck_raw :: "string \<Rightarrow> (string \<times> yval) list \<Rightarrow> string list" where
  "cpuCheck_raw fileName raw =
     (case firstContainer_raw raw of
        Some container \<Rightarrow>
          (case map_of container ''resources'' of
             Some (YMap resources) \<Rightarrow>
               (case map_of resources ''limits'' of
                  Some (YMap limits) \<Rightarrow> cpuValue_raw fileName limits
                | _ \<Rightarrow> []) @
               (case map_of resources ''requests'' of
                  Some (YMap requests) \<Rightarrow> cpuValue_raw fileName requests
                | _ \<Rightarrow> [])
           | _ \<Rightarrow> [])
      | None \<Rightarrow> [])"

definition rawChecks :: "string \<Rightarrow> (string \<times> yval) list \<Rightarrow> string list" where
  "rawChecks fileName raw =
     metaNameCheck_raw fileName raw @
     osCheck fileName raw @
     portCheck_raw fileName raw @
     probeCheck_raw fileName ''readinessProbe'' raw @
     probeCheck_raw fileName ''livenessProbe'' raw @
     cpuCheck_raw fileName raw"

definition nameCheck_raw :: "string \<Rightarrow> (string \<Rightarrow> bool) \<Rightarrow> Container \<Rightarrow> string list" where
  "nameCheck_raw prefix seen c =
     (if c_Name c = [] then [] else nameFormatChecks prefix seen c)"

definition limitsCheck_raw :: "string \<Rightarrow> Container \<Rightarrow> string list" where
  "limitsCheck_raw prefix c =
     (case rr_Limits (c_Resources c) of
        None \<Rightarrow> []
      | Some entries \<Rightarrow> concat (map (memoryEntry prefix ''limits'') entries))"

fun portsLoop_raw :: "string \<Rightarrow> nat \<Rightarrow> ContainerPort list \<Rightarrow> string list" where
  "portsLoop_raw prefix j [] = []"
| "portsLoop_raw prefix j (port # ports) =
     portProtocol prefix j port @ portsLoop_raw prefix (Suc j) ports"

definition containerBody_raw :: "string \<Rightarrow> nat \<Rightarrow> (string \<Rightarrow> bool) \<Rightarrow> Container \<Rightarrow> string list" where
  "containerBody_raw src i seen c =
     nameCheck_raw (containerPrefix src i) seen c @
     imageCheck (containerPrefix src i) c @
     requestsCheck (containerPrefix src i) c @
     limitsCheck_raw (containerPrefix src i) c @
     portsLoop_raw (containerPrefix src i) 0 (c_Ports c)"

fun containersLoop_raw :: "string \<Rightarrow> nat \<Rightarrow> (string \<Rightarrow> bool) \<Rightarrow> Container list \<Rightarrow> string list" where
  "containersLoop_raw src i seen [] = []"
| "containersLoop_raw src i seen (c # cs) =
     containerBody_raw src i seen c @ containersLoop_raw src (Suc i) (nameSeen seen c) cs"

definition typedChecks_raw :: "string \<Rightarrow> Pod \<Rightarrow> string list" where
  "typedChecks_raw fileName pod =
     apiVersionCheck fileName pod @
     kindCheck fileName pod @
     containersRequired fileName pod @
     containersLoop_raw fileName 0 (\<lambda>n. False) (ps_Containers (p_Spec pod))"

definition validatePod_raw :: "files \<Rightarrow> string \<Rightarrow> string list \<times> string option" where
  "validatePod_raw fs filePath =
     (case fs filePath of
        Inl e \<Rightarrow> ([], Some (''cannot read file: '' @ e))
      | Inr doc \<Rightarrow>
          (case typedErr doc of
             Some e \<Rightarrow> (rawChecks (Base filePath) (rawMap doc), None)
           | None \<Rightarrow>
               (rawChecks (Base filePath) (rawMap doc) @ typedChecks_raw (Base filePath) (typed doc),
                None)))"

definition runValidator_raw :: "files \<Rightarrow> string list \<Rightarrow> string list \<times> int option" where
  "runValidator_raw fs args =
     (if length args \<noteq> 2 then ([''Usage: yamlvalid <path-to-yaml-file>\<newline>''], Some 1)
      else case validatePod_raw fs (args ! 1) of
             (out, Some e) \<Rightarrow> (out @ [''Error: '' @ e @ ''\<newline>''], Some 1)
           | (out, None) \<Rightarrow> (out, None))"

section \<open>Example documents\<close>

text \<open>
  Builders for the documents of the scenarios: the typed structure and the untyped
  mapping that belong to a manifest with \<open>apiVersion: v1\<close>, \<open>kind: Pod\<close>,
  \<open>metadata: {name: web}\<close> and the given containers.
\<close>

definition noResources :: ResourceRequirements where
  "noResources = \<lparr>rr_Requests = None, rr_Limits = None\<rparr>"

definition mkContainer :: "string \<Rightarrow> string \<Rightarrow> Container" where
  "mkContainer n img =
     \<lparr>c_Name = n, c_Image = img, c_Ports = [], c_ReadinessProbe = None,
      c_LivenessProbe = None, c_Resources = noResources\<rparr>"

definition mkPod :: "Container list \<Rightarrow> Pod" where
  "mkPod cs =
     \<lparr>p_APIVersion = ''v1'', p_Kind = ''Pod'',
      p_Metadata = \<lparr>md_Name = ''web'', md_Namespace = [], md_Labels = None\<rparr>,
      p_Spec = \<lparr>ps_OS = None, ps_Containers = cs\<rparr>\<rparr>"

definition mkRawContainer :: "string \<Rightarrow> string \<Rightarrow> (string \<times> yval) list \<Rightarrow> yval" where
  "mkRawContainer n img extra = YMap ([(''name'', YString n), (''image'', YString img)] @ extra)"

definition mkRaw :: "(string \<times> yval) list \<Rightarrow> yval list \<Rightarrow> (string \<times> yval) list" where
  "mkRaw extra cs =
     [(''apiVersion'', YString ''v1''), (''kind'', YString ''Pod''),
      (''metadata'', YMap [(''name'', YString ''web'')]),
      (''spec'', YMap (extra @ [(''containers'', YSeq cs)]))]"

definition good_image :: string where
  "good_image = ''registry.bigbrother.io/app:1.0''"

text \<open>
  The manifest with one container \<open>web_server\<close> and \<open>spec.os\<close> given as the bare
  string \<open>v\<close>. A string does not decode into the struct \<open>PodOS\<close>, so the typed call
  returns an error \<open>e\<close>; \<open>p\<close> is what it left in the structure.
\<close>

definition os_document :: "string \<Rightarrow> Pod \<Rightarrow> string \<Rightarrow> document" where
  "os_document v p e =
     \<lparr>typed = p, typedErr = Some e,
      rawMap = mkRaw [(''os'', YString v)] [mkRawContainer ''web_server'' good_image []]\<rparr>"


definition doc_of :: "Container list \<Rightarrow> yval list \<Rightarrow> document" where
  "doc_of cs raws = \<lparr>typed = mkPod cs, typedErr = None, rawMap = mkRaw [] raws\<rparr>"

text \<open>
  The scenario of section 8: one container \<open>web_server\<close> with an image of the
  registry.
\<close>

definition scenario_document :: document where
  "scenario_document =
     doc_of [mkContainer ''web_server'' good_image] [mkRawContainer ''web_server'' good_image []]"

definition mkPort :: "int \<Rightarrow> ContainerPort" where
  "mkPort n = \<lparr>cp_ContainerPort = n, cp_Protocol = []\<rparr>"

definition mkProbe :: "string \<Rightarrow> int \<Rightarrow> Probe" where
  "mkProbe path n = \<lparr>pb_HTTPGet = \<lparr>hg_Path = path, hg_Port = n\<rparr>\<rparr>"

definition mkRawPort :: "int \<Rightarrow> yval" where
  "mkRawPort n = YMap [(''containerPort'', YInt n)]"

definition mkRawProbe :: "string \<Rightarrow> int \<Rightarrow> yval" where
  "mkRawProbe path n = YMap [(''httpGet'', YMap [(''path'', YString path), (''port'', YInt n)])]"

text \<open>
  Two containers: \<open>web_server\<close> with the ports 80 and 0, and \<open>db\<close> with the port
  70000 and a readiness probe on port 0.
\<close>

definition ports_document :: document where
  "ports_document =
     doc_of
       [(mkContainer ''web_server'' good_image)\<lparr>c_Ports := [mkPort 80, mkPort 0]\<rparr>,
        (mkContainer ''db'' good_image)
          \<lparr>c_Ports := [mkPort 70000], c_ReadinessProbe := Some (mkProbe ''/ready'' 0)\<rparr>]
       [mkRawContainer ''web_server'' good_image
          [(''ports'', YSeq [mkRawPort 80, mkRawPort 0])],
        mkRawContainer ''db'' good_image
          [(''ports'', YSeq [mkRawPort 70000]), (''readinessProbe'', mkRawProbe ''/ready'' 0)]]"

text \<open>One container whose \<open>resources.requests\<close> (or \<open>limits\<close>) is \<open>{cpu: v}\<close>.\<close>

definition requests_cpu_document :: "string \<Rightarrow> document" where
  "requests_cpu_document v =
     doc_of
       [(mkContainer ''web_server'' good_image)
          \<lparr>c_Resources := \<lparr>rr_Requests = Some [(''cpu'', v)], rr_Limits = None\<rparr>\<rparr>]
       [mkRawContainer ''web_server'' good_image
          [(''resources'', YMap [(''requests'', YMap [(''cpu'', YString v)])])]]"

definition limits_cpu_document :: "string \<Rightarrow> document" where
  "limits_cpu_document v =
     doc_of
       [(mkContainer ''web_server'' good_image)
          \<lparr>c_Resources := \<lparr>rr_Requests = None, rr_Limits = Some [(''cpu'', v)]\<rparr>\<rparr>]
       [mkRawContainer ''web_server'' good_image
          [(''resources'', YMap [(''limits'', YMap [(''cpu'', YString v)])])]]"

text \<open>
  The same with the numeric literal \<open>cpu: 4\<close>: the typed map holds the text of the
  scalar, the untyped mapping an int.
\<close>

definition limits_cpu_literal_document :: document where
  "limits_cpu_literal_document =
     doc_of
       [(mkContainer ''web_server'' good_image)
          \<lparr>c_Resources := \<lparr>rr_Requests = None, rr_Limits = Some [(''cpu'', ''4'')]\<rparr>\<rparr>]
       [mkRawContainer ''web_server'' good_image
          [(''resources'', YMap [(''limits'', YMap [(''cpu'', YInt 4)])])]]"

text \<open>Two containers, the second with \<open>resources.limits: {cpu: "abc"}\<close>.\<close>

definition second_cpu_document :: document where
  "second_cpu_document =
     doc_of
       [mkContainer ''web_server'' good_image,
        (mkContainer ''db'' good_image)
          \<lparr>c_Resources := \<lparr>rr_Requests = None, rr_Limits = Some [(''cpu'', ''abc'')]\<rparr>\<rparr>]
       [mkRawContainer ''web_server'' good_image [],
        mkRawContainer ''db'' good_image
          [(''resources'', YMap [(''limits'', YMap [(''cpu'', YString ''abc'')])])]]"

text \<open>Containers whose names are the given ones, all with a good image.\<close>

definition named_document :: "string list \<Rightarrow> document" where
  "named_document ns =
     doc_of (map (\<lambda>n. mkContainer n good_image) ns) (map (\<lambda>n. mkRawContainer n good_image []) ns)"


section \<open>The rules in the words of the specification\<close>







text \<open>A line that names a container by its index.\<close>

definition indexed_line :: "string \<Rightarrow> string \<Rightarrow> bool" where
  "indexed_line src l = (\<exists>r. l = src @ '': spec.containers['' @ r)"

text \<open>A line in which the source identifier is followed by a colon and a space.\<close>

definition plain_line :: "string \<Rightarrow> string \<Rightarrow> bool" where
  "plain_line src l = (\<exists>r. l = src @ '': '' @ r)"


text \<open>The scenario without the fields \<open>apiVersion\<close> and \<open>kind\<close>.\<close>

definition headless_document :: document where
  "headless_document =
     \<lparr>typed = (mkPod [mkContainer ''web_server'' good_image])\<lparr>p_APIVersion := [], p_Kind := []\<rparr>,
      typedErr = None,
      rawMap = [(''metadata'', YMap [(''name'', YString ''web'')]),
                (''spec'', YMap [(''containers'',
                   YSeq [mkRawContainer ''web_server'' good_image []])])]\<rparr>"

text \<open>
  "For key memory the value must match \<open><integer><Ki|Mi|Gi>\<close>": one or more decimal
  digits, followed by one of the three unit suffixes.
\<close>

definition memory_quantity :: "string \<Rightarrow> bool" where
  "memory_quantity s =
     (2 < length s \<and> list_all is_digit (take (length s - 2) s)
      \<and> drop (length s - 2) s \<in> {''Ki'', ''Mi'', ''Gi''})"

text \<open>One container whose \<open>resources\<close> are \<open>{requests: {memory: v}, limits: {memory: v}}\<close>.\<close>

definition memory_document :: "string \<Rightarrow> document" where
  "memory_document v =
     doc_of
       [(mkContainer ''web_server'' good_image)
          \<lparr>c_Resources := \<lparr>rr_Requests = Some [(''memory'', v)],
                           rr_Limits = Some [(''memory'', v)]\<rparr>\<rparr>]
       [mkRawContainer ''web_server'' good_image
          [(''resources'', YMap [(''requests'', YMap [(''memory'', YString v)]),
                                (''limits'', YMap [(''memory'', YString v)])])]]"

section \<open>The diagnostic lines of section 6\<close>


text \<open>
  The lines in which the source files put a fixed number between the source identifier
  and the message: those of yamlvalid.go, and those of the second source file.
\<close>

definition marked_lines :: "string \<Rightarrow> string set" where
  "marked_lines src =
     {src @ '':4 name is required\<newline>'', src @ '':12 name is required\<newline>'',
      src @ '':30 cpu must be int\<newline>''}
     \<union> {src @ '':10 os has unsupported value '' @ quoted v @ ''\<newline>'' | v. True}"

definition marked_lines_raw :: "string \<Rightarrow> string set" where
  "marked_lines_raw src =
     {src @ '':4 name is required\<newline>'',
      src @ '':15 containerPort value out of range\<newline>'',
      src @ '':24 port value out of range\<newline>'', src @ '':27 cpu must be int\<newline>''}
     \<union> {src @ '':10 os has unsupported value '' @ quoted v @ ''\<newline>'' | v. True}"


section \<open>Documents whose typed parse fails\<close>

text \<open>
  A manifest with \<open>spec.os\<close> given as the bare string \<open>linux\<close>, a shape that
  section 3 allows. The typed call reports a type error for it (a string where the
  struct \<open>PodOS\<close> is expected) and still fills the rest of the structure.
  \<open>with_os_linux\<close> adds that field to an example document.
\<close>

definition shape_error :: string where
  "shape_error = ''yaml: unmarshal errors: cannot unmarshal !!str into main.PodOS''"

fun add_os_linux :: "(string \<times> yval) list \<Rightarrow> (string \<times> yval) list" where
  "add_os_linux [] = []"
| "add_os_linux ((k, v) # kvs) =
     (if k = ''spec''
      then (k, (case v of YMap m \<Rightarrow> YMap ((''os'', YString ''linux'') # m) | _ \<Rightarrow> v)) # kvs
      else (k, v) # add_os_linux kvs)"

definition with_os_linux :: "document \<Rightarrow> document" where
  "with_os_linux d =
     \<lparr>typed = (typed d)\<lparr>p_Spec := (p_Spec (typed d))\<lparr>ps_OS := Some \<lparr>os_Name = []\<rparr>\<rparr>\<rparr>,
      typedErr = Some shape_error,
      rawMap = add_os_linux (rawMap d)\<rparr>"







section \<open>Properties\<close>

subsection \<open>Decimal indices\<close>

lemma is_digit_digit_char: "d < 10 \<Longrightarrow> is_digit (digit_char d)"
  by (simp add: is_digit_def digit_char_def)

lemma show_nat_digits: "list_all is_digit (show_nat n)"
proof (induction n rule: show_nat.induct)
  case (1 n)
  show ?case
  proof (cases "n < 10")
    case True
    then show ?thesis by (subst show_nat.simps) (simp add: is_digit_digit_char)
  next
    case False
    with 1 show ?thesis by (subst show_nat.simps) (simp add: is_digit_digit_char)
  qed
qed

lemma digits_value_snoc: "digits_value (ds @ [c]) = 10 * digits_value ds + (of_char c - 48)"
  by (simp add: digits_value_def)

lemma of_char_digit_char: "d < 10 \<Longrightarrow> (of_char (digit_char d) :: int) = 48 + int d"
proof -
  assume "d < 10"
  then have "(of_char (digit_char d) :: nat) = 48 + d" by (simp add: digit_char_def)
  then have "int (of_char (digit_char d)) = 48 + int d" by simp
  then show ?thesis by (simp only: of_nat_of_char)
qed

lemma digits_value_show_nat: "digits_value (show_nat n) = int n"
proof (induction n rule: show_nat.induct)
  case (1 n)
  show ?case
  proof (cases "n < 10")
    case True
    then show ?thesis
      by (subst show_nat.simps) (simp add: digits_value_def of_char_digit_char)
  next
    case False
    with 1 have "digits_value (show_nat (n div 10)) = int (n div 10)" by simp
    with False show ?thesis
      by (subst show_nat.simps) (simp add: digits_value_snoc of_char_digit_char zdiv_int zmod_int)
  qed
qed

lemma show_nat_inj: "show_nat m = show_nat n \<Longrightarrow> m = n"
proof -
  assume "show_nat m = show_nat n"
  then have "digits_value (show_nat m) = digits_value (show_nat n)" by simp
  then show ?thesis by (simp add: digits_value_show_nat)
qed

lemma show_nat_eq_iff [simp]: "show_nat m = show_nat n \<longleftrightarrow> m = n"
  using show_nat_inj by blast

lemma show_nat_small [simp]:
  "show_nat 0 = ''0''" "show_nat (Suc 0) = ''1''" "show_nat 1 = ''1''" "show_nat 2 = ''2''"
  "show_nat 3 = ''3''"
  by code_simp+

lemma split_at_mark:
  assumes "list_all P xs" "list_all P ys" "\<not> P d"
  shows "xs @ d # r = ys @ d # r' \<longleftrightarrow> xs = ys \<and> r = r'"
  using assms
proof (induction xs arbitrary: ys)
  case Nil
  then show ?case by (cases ys) auto
next
  case (Cons x xs)
  then show ?case by (cases ys) auto
qed

lemma show_nat_bracket [simp]:
  "show_nat m @ CHR '']'' # r = show_nat n @ CHR '']'' # r' \<longleftrightarrow> m = n \<and> r = r'"
proof -
  have "\<not> is_digit CHR '']''" by (simp add: is_digit_def)
  then have "show_nat m @ CHR '']'' # r = show_nat n @ CHR '']'' # r' \<longleftrightarrow> show_nat m = show_nat n \<and> r = r'"
    using split_at_mark [of is_digit "show_nat m" "show_nat n" "CHR '']''" r r'] show_nat_digits
    by blast
  then show ?thesis using show_nat_inj by blast
qed

subsection \<open>The loops as unions over the indices\<close>

lemma set_containersLoop:
  "set (containersLoop src i seen cs) =
     (\<Union>k<length cs. set (containerBody src (i + k) (foldl nameSeen seen (take k cs)) (cs ! k)))"
  by (induction cs arbitrary: i seen) (simp_all add: lessThan_Suc_eq_insert_0 image_image)

lemma set_portsLoop:
  "set (portsLoop prefix j ports) =
     (\<Union>k<length ports. set (portRange prefix (j + k) (ports ! k)) \<union>
                          set (portProtocol prefix (j + k) (ports ! k)))"
  by (induction ports arbitrary: j) (simp_all add: lessThan_Suc_eq_insert_0 image_image Un_assoc)

lemma set_containersLoop_raw:
  "set (containersLoop_raw src i seen cs) =
     (\<Union>k<length cs. set (containerBody_raw src (i + k) (foldl nameSeen seen (take k cs)) (cs ! k)))"
  by (induction cs arbitrary: i seen) (simp_all add: lessThan_Suc_eq_insert_0 image_image)

lemma set_portsLoop_raw:
  "set (portsLoop_raw prefix j ports) =
     (\<Union>k<length ports. set (portProtocol prefix (j + k) (ports ! k)))"
  by (induction ports arbitrary: j) (simp_all add: lessThan_Suc_eq_insert_0 image_image)

lemma foldl_nameSeen:
  "foldl nameSeen seen cs n \<longleftrightarrow> seen n \<or> (n \<noteq> [] \<and> n \<in> c_Name ` set cs)"
  by (induction cs arbitrary: seen) (auto simp: nameSeen_def)

lemmas line_defs = containerBody_def nameCheck_def nameFormatChecks_def imageCheck_def
  requestsCheck_def limitsCheck_def memoryEntry_def cpuEntry_def portRange_def portProtocol_def
  probeCheck_def containerPrefix_def portPrefix_def containerBody_raw_def nameCheck_raw_def
  limitsCheck_raw_def

lemmas top_defs = topChecks_def osCheck_def apiVersionCheck_def kindCheck_def metadataCheck_def
  containersRequired_def

lemmas raw_defs = rawChecks_def metaNameCheck_raw_def osCheck_def portCheck_raw_def
  probeCheck_raw_def cpuCheck_raw_def cpuValue_raw_def firstContainer_raw_def

lemma osCheck_cases:
  "osCheck src raw = [] \<or>
   (\<exists>v. osCheck src raw = [src @ '':10 os has unsupported value '' @ quoted v @ ''\<newline>''])"
  by (simp add: osCheck_def split: option.splits yval.splits)

subsection \<open>The shape of the lines of each part of an output\<close>

lemma indexed_prefix [simp]: "indexed_line src (containerPrefix src i @ r)"
  by (simp add: indexed_line_def containerPrefix_def)

lemma not_indexed [simp]:
  "\<not> indexed_line src (src @ CHR '':'' # CHR '' '' # CHR ''a'' # r)"
  "\<not> indexed_line src (src @ CHR '':'' # CHR '' '' # CHR ''k'' # r)"
  "\<not> indexed_line src (src @ CHR '':'' # CHR '' '' # CHR ''s'' # CHR ''p'' # CHR ''e'' # CHR ''c''
        # CHR ''.'' # CHR ''c'' # CHR ''o'' # CHR ''n'' # CHR ''t'' # CHR ''a'' # CHR ''i''
        # CHR ''n'' # CHR ''e'' # CHR ''r'' # CHR ''s'' # CHR '' '' # r)"
  "\<not> indexed_line src (src @ CHR '':'' # CHR ''1'' # r)"
  "\<not> indexed_line src (src @ CHR '':'' # CHR ''2'' # r)"
  "\<not> indexed_line src (src @ CHR '':'' # CHR ''3'' # r)"
  "\<not> indexed_line src (src @ CHR '':'' # CHR ''4'' # r)"
  by (simp_all add: indexed_line_def)

lemma body_line_shape:
  "l \<in> set (containerBody src k seen c) \<Longrightarrow>
     indexed_line src l \<or> l = src @ '':12 name is required\<newline>''
     \<or> l = src @ '':30 cpu must be int\<newline>''"
  by (auto simp: containerBody_def nameCheck_def nameFormatChecks_def imageCheck_def
      requestsCheck_def limitsCheck_def memoryEntry_def cpuEntry_def portRange_def
      portProtocol_def probeCheck_def portPrefix_def set_portsLoop
      split: option.splits if_splits)

lemma body_raw_line_shape:
  "l \<in> set (containerBody_raw src k seen c) \<Longrightarrow> indexed_line src l"
  by (auto simp: containerBody_raw_def nameCheck_raw_def nameFormatChecks_def imageCheck_def
      requestsCheck_def limitsCheck_raw_def memoryEntry_def
      portProtocol_def portPrefix_def set_portsLoop_raw
      split: option.splits if_splits)

lemma top_line_shape:
  "l \<in> set (topChecks src doc) \<Longrightarrow> \<not> indexed_line src l"
  using osCheck_cases [of src "rawMap doc"]
  by (auto simp: topChecks_def apiVersionCheck_def kindCheck_def metadataCheck_def
      containersRequired_def split: if_splits)

lemma metaNameCheck_raw_cases:
  "metaNameCheck_raw src raw = [] \<or> metaNameCheck_raw src raw = [src @ '':4 name is required\<newline>'']"
  by (simp add: metaNameCheck_raw_def split: option.splits yval.splits)

lemma portCheck_raw_cases:
  "portCheck_raw src raw = [] \<or>
   portCheck_raw src raw = [src @ '':15 containerPort value out of range\<newline>'']"
  by (simp add: portCheck_raw_def split: option.splits yval.splits list.splits)

lemma probeCheck_raw_cases:
  "probeCheck_raw src key raw = [] \<or>
   probeCheck_raw src key raw = [src @ '':24 port value out of range\<newline>'']"
  by (simp add: probeCheck_raw_def split: option.splits yval.splits)

lemma cpuValue_raw_cases:
  "cpuValue_raw src m = [] \<or> cpuValue_raw src m = [src @ '':27 cpu must be int\<newline>'']"
  by (simp add: cpuValue_raw_def split: option.splits yval.splits)

lemma cpuCheck_raw_shape:
  "l \<in> set (cpuCheck_raw src raw) \<Longrightarrow> l = src @ '':27 cpu must be int\<newline>''"
proof -
  assume l: "l \<in> set (cpuCheck_raw src raw)"
  have "\<And>m. l \<in> set (cpuValue_raw src m) \<Longrightarrow> l = src @ '':27 cpu must be int\<newline>''"
    using cpuValue_raw_cases by (metis empty_iff empty_set list.set_cases list.inject)
  with l show ?thesis
    by (auto simp: cpuCheck_raw_def split: option.splits yval.splits)
qed

lemma rawChecks_line_shape:
  "l \<in> set (rawChecks src raw) \<Longrightarrow>
     l = src @ '':4 name is required\<newline>''
     \<or> (\<exists>v. l = src @ '':10 os has unsupported value '' @ quoted v @ ''\<newline>'')
     \<or> l = src @ '':15 containerPort value out of range\<newline>''
     \<or> l = src @ '':24 port value out of range\<newline>''
     \<or> l = src @ '':27 cpu must be int\<newline>''"
proof -
  assume "l \<in> set (rawChecks src raw)"
  then consider "l \<in> set (metaNameCheck_raw src raw)" | "l \<in> set (osCheck src raw)"
    | "l \<in> set (portCheck_raw src raw)" | "l \<in> set (probeCheck_raw src ''readinessProbe'' raw)"
    | "l \<in> set (probeCheck_raw src ''livenessProbe'' raw)" | "l \<in> set (cpuCheck_raw src raw)"
    by (auto simp: rawChecks_def)
  then show ?thesis
  proof cases
    case 1
    with metaNameCheck_raw_cases [of src raw] show ?thesis by auto
  next
    case 2
    with osCheck_cases [of src raw] show ?thesis by auto
  next
    case 3
    with portCheck_raw_cases [of src raw] show ?thesis by auto
  next
    case 4
    with probeCheck_raw_cases [of src "''readinessProbe''" raw] show ?thesis by auto
  next
    case 5
    with probeCheck_raw_cases [of src "''livenessProbe''" raw] show ?thesis by auto
  next
    case 6
    then show ?thesis using cpuCheck_raw_shape by blast
  qed
qed

subsection \<open>Where the lines of the range rules come from\<close>




lemma indexed_in_podChecks:
  "indexed_line src l \<Longrightarrow>
   l \<in> set (podChecks src doc) \<longleftrightarrow>
     (\<exists>k<length (ps_Containers (p_Spec (typed doc))).
        l \<in> set (containerBody src k
                (foldl nameSeen (\<lambda>n. False) (take k (ps_Containers (p_Spec (typed doc)))))
                (ps_Containers (p_Spec (typed doc)) ! k)))"
  using top_line_shape [of l src doc] by (auto simp: podChecks_def set_containersLoop)

lemma indexedI: "indexed_line src (src @ '': spec.containers['' @ r)"
  by (simp add: indexed_line_def)

lemma validatePod_ok:
  "fs path = Inr doc \<Longrightarrow> typedErr doc = None \<Longrightarrow> validatePod fs path = (podChecks path doc, None)"
  by (simp add: validatePod_def)





subsection \<open>The checks on the untyped mapping\<close>

lemma plainI: "plain_line src (src @ CHR '':'' # CHR '' '' # r)"
  by (simp add: plain_line_def)

lemma indexed_plain: "indexed_line src l \<Longrightarrow> plain_line src l"
  by (auto simp: indexed_line_def plain_line_def)

lemma not_plain [simp]:
  "\<not> plain_line src (src @ CHR '':'' # CHR ''1'' # r)"
  "\<not> plain_line src (src @ CHR '':'' # CHR ''2'' # r)"
  "\<not> plain_line src (src @ CHR '':'' # CHR ''3'' # r)"
  "\<not> plain_line src (src @ CHR '':'' # CHR ''4'' # r)"
  by (simp_all add: plain_line_def)











subsection \<open>The checked fields among the port values of the untyped document\<close>







subsection \<open>Counting the lines of the top-level rules\<close>

lemma rawChecks_marked: "l \<in> set (rawChecks src raw) \<Longrightarrow> \<not> plain_line src l"
  using rawChecks_line_shape [of l src raw] by auto

lemma loop_line_indexed_or_marked:
  "l \<in> set (containersLoop src i seen cs) \<Longrightarrow> indexed_line src l \<or> \<not> plain_line src l"
proof -
  assume "l \<in> set (containersLoop src i seen cs)"
  then obtain k where "l \<in> set (containerBody src (i + k) (foldl nameSeen seen (take k cs)) (cs ! k))"
    by (auto simp: set_containersLoop)
  then have "indexed_line src l \<or> l = src @ '':12 name is required\<newline>''
     \<or> l = src @ '':30 cpu must be int\<newline>''"
    by (rule body_line_shape)
  then show ?thesis by auto
qed

lemma loop_raw_line_indexed:
  "l \<in> set (containersLoop_raw src i seen cs) \<Longrightarrow> indexed_line src l"
  using body_raw_line_shape [of l src] by (auto simp: set_containersLoop_raw)

lemma count_podChecks_top:
  assumes "plain_line src l" and "\<not> indexed_line src l"
  shows "count_list (podChecks src doc) l = count_list (topChecks src doc) l"
proof -
  have "l \<notin> set (containersLoop src 0 (\<lambda>n. False) (ps_Containers (p_Spec (typed doc))))"
    using assms loop_line_indexed_or_marked by blast
  then show ?thesis by (simp add: podChecks_def)
qed

lemma count_raw_out_top:
  assumes "plain_line src l" and "\<not> indexed_line src l"
  shows "count_list (rawChecks src raw @ typedChecks_raw src pod) l
         = count_list (apiVersionCheck src pod @ kindCheck src pod @ containersRequired src pod) l"
proof -
  have "l \<notin> set (containersLoop_raw src 0 (\<lambda>n. False) (ps_Containers (p_Spec pod)))"
    using assms loop_raw_line_indexed by blast
  moreover have "l \<notin> set (rawChecks src raw)"
    using assms rawChecks_marked by blast
  ultimately show ?thesis by (simp add: typedChecks_raw_def)
qed

lemma count_osCheck_plain:
  "plain_line src l \<Longrightarrow> count_list (osCheck src raw) l = 0"
  using osCheck_cases [of src raw] by auto

lemma top_plain_count:
  assumes "plain_line src l"
  shows "count_list (topChecks src doc) l =
     count_list (apiVersionCheck src (typed doc) @ kindCheck src (typed doc)
                 @ containersRequired src (typed doc)) l"
proof -
  have "l \<notin> set (metadataCheck src (typed doc))"
    using assms by (auto simp: metadataCheck_def)
  then show ?thesis
    using assms by (simp add: topChecks_def count_osCheck_plain)
qed

lemma plain_lits [simp]:
  "plain_line src (src @ CHR '':'' # CHR '' '' # r)"
  by (simp add: plain_line_def)

lemma required_count:
  "count_list (apiVersionCheck src pod @ kindCheck src pod @ containersRequired src pod)
      (src @ '': apiVersion is required\<newline>'') = (if p_APIVersion pod = [] then 1 else 0)"
  "count_list (apiVersionCheck src pod @ kindCheck src pod @ containersRequired src pod)
      (src @ '': kind is required\<newline>'') = (if p_Kind pod = [] then 1 else 0)"
  by (simp_all add: apiVersionCheck_def kindCheck_def containersRequired_def)

lemma unsupported_count:
  "count_list (apiVersionCheck src pod @ kindCheck src pod @ containersRequired src pod)
      (src @ '': apiVersion has unsupported value '' @ quoted v @ ''\<newline>'')
     = (if p_APIVersion pod \<noteq> [] \<and> p_APIVersion pod \<noteq> ''v1'' \<and> v = p_APIVersion pod
        then 1 else 0)"
  "count_list (apiVersionCheck src pod @ kindCheck src pod @ containersRequired src pod)
      (src @ '': kind has unsupported value '' @ quoted v @ ''\<newline>'')
     = (if p_Kind pod \<noteq> [] \<and> p_Kind pod \<noteq> ''Pod'' \<and> v = p_Kind pod then 1 else 0)"
  by (auto simp: apiVersionCheck_def kindCheck_def containersRequired_def)


lemma strict_top_count:
  assumes "plain_line path l" and "\<not> indexed_line path l"
  shows "count_list (fst (validatePod fs path)) l =
     (case fs path of
        Inl e \<Rightarrow> 0
      | Inr doc \<Rightarrow>
          (case typedErr doc of
             Some e \<Rightarrow> 0
           | None \<Rightarrow> count_list (apiVersionCheck path (typed doc) @ kindCheck path (typed doc)
                                  @ containersRequired path (typed doc)) l))"
  using assms
  by (simp add: validatePod_def count_podChecks_top top_plain_count
      split: sum.splits option.splits)

lemma raw_top_count:
  assumes "plain_line (Base path) l" and "\<not> indexed_line (Base path) l"
  shows "count_list (fst (validatePod_raw fs path)) l =
     (case fs path of
        Inl e \<Rightarrow> 0
      | Inr doc \<Rightarrow>
          (case typedErr doc of
             Some e \<Rightarrow> 0
           | None \<Rightarrow> count_list (apiVersionCheck (Base path) (typed doc)
                                  @ kindCheck (Base path) (typed doc)
                                  @ containersRequired (Base path) (typed doc)) l))"
proof (cases "fs path")
  case (Inl e)
  then show ?thesis by (simp add: validatePod_raw_def)
next
  case (Inr doc)
  have r: "l \<notin> set (rawChecks (Base path) (rawMap doc))"
    using assms rawChecks_marked by blast
  show ?thesis
  proof (cases "typedErr doc")
    case None
    with Inr have "fst (validatePod_raw fs path)
        = rawChecks (Base path) (rawMap doc) @ typedChecks_raw (Base path) (typed doc)"
      by (simp add: validatePod_raw_def)
    with Inr None show ?thesis
      by (simp only: count_raw_out_top [OF assms] sum.case option.case)
  next
    case (Some e)
    with Inr r show ?thesis by (simp add: validatePod_raw_def)
  qed
qed

lemma in_set_count: "x \<in> set xs \<longleftrightarrow> count_list xs x \<noteq> 0"
  by (simp add: count_list_0_iff)

lemma top_lines_shape [simp]:
  "plain_line src (src @ '': apiVersion is required\<newline>'')"
  "\<not> indexed_line src (src @ '': apiVersion is required\<newline>'')"
  "plain_line src (src @ '': kind is required\<newline>'')"
  "\<not> indexed_line src (src @ '': kind is required\<newline>'')"
  "plain_line src (src @ '': apiVersion has unsupported value '' @ quoted v @ ''\<newline>'')"
  "\<not> indexed_line src (src @ '': apiVersion has unsupported value '' @ quoted v @ ''\<newline>'')"
  "plain_line src (src @ '': kind has unsupported value '' @ quoted v @ ''\<newline>'')"
  "\<not> indexed_line src (src @ '': kind has unsupported value '' @ quoted v @ ''\<newline>'')"
  by simp_all

subsection \<open>Where the lines of the name rules come from\<close>

lemma dup_line_in_body:
  "src @ '': spec.containers['' @ show_nat i @ ''].name duplicate container name '' @ quoted n
       @ ''\<newline>'' \<in> set (containerBody src k seen c) \<longleftrightarrow>
   k = i \<and> c_Name c \<noteq> [] \<and> c_Name c = n \<and> seen n"
  by (auto simp: line_defs set_portsLoop split: option.splits)

lemma invalid_line_in_body:
  "src @ '': spec.containers['' @ show_nat i @ ''].name has invalid format '' @ quoted n
       @ ''\<newline>'' \<in> set (containerBody src k seen c) \<longleftrightarrow>
   k = i \<and> c_Name c \<noteq> [] \<and> c_Name c = n \<and> \<not> isSnakeCase n"
  by (auto simp: line_defs set_portsLoop split: option.splits)

lemma dup_line_in_body_raw:
  "src @ '': spec.containers['' @ show_nat i @ ''].name duplicate container name '' @ quoted n
       @ ''\<newline>'' \<in> set (containerBody_raw src k seen c) \<longleftrightarrow>
   k = i \<and> c_Name c \<noteq> [] \<and> c_Name c = n \<and> seen n"
  by (auto simp: line_defs set_portsLoop_raw split: option.splits)

lemma invalid_line_in_body_raw:
  "src @ '': spec.containers['' @ show_nat i @ ''].name has invalid format '' @ quoted n
       @ ''\<newline>'' \<in> set (containerBody_raw src k seen c) \<longleftrightarrow>
   k = i \<and> c_Name c \<noteq> [] \<and> c_Name c = n \<and> \<not> isSnakeCase n"
  by (auto simp: line_defs set_portsLoop_raw split: option.splits)

lemma seen_before:
  assumes "k \<le> length cs"
  shows "foldl nameSeen (\<lambda>n. False) (take k cs) n \<longleftrightarrow> n \<noteq> [] \<and> (\<exists>j<k. c_Name (cs ! j) = n)"
proof -
  have "n \<in> c_Name ` set (take k cs) \<longleftrightarrow> (\<exists>j<k. c_Name (cs ! j) = n)"
  proof
    assume "n \<in> c_Name ` set (take k cs)"
    then obtain x where "x \<in> set (take k cs)" "n = c_Name x" by blast
    then obtain j where "j < length (take k cs)" "take k cs ! j = x"
      by (auto simp: in_set_conv_nth)
    with \<open>n = c_Name x\<close> assms have "j < k \<and> c_Name (cs ! j) = n" by simp
    then show "\<exists>j<k. c_Name (cs ! j) = n" by blast
  next
    assume "\<exists>j<k. c_Name (cs ! j) = n"
    then obtain j where j: "j < k" "c_Name (cs ! j) = n" by blast
    with assms have "j < length (take k cs)" "take k cs ! j = cs ! j" by simp_all
    then have "cs ! j \<in> set (take k cs)" by (metis nth_mem)
    with j show "n \<in> c_Name ` set (take k cs)" by blast
  qed
  then show ?thesis by (simp add: foldl_nameSeen)
qed

lemma indexed_in_typedChecks_raw:
  "indexed_line src l \<Longrightarrow>
   l \<in> set (typedChecks_raw src pod) \<longleftrightarrow>
     (\<exists>k<length (ps_Containers (p_Spec pod)).
        l \<in> set (containerBody_raw src k
                (foldl nameSeen (\<lambda>n. False) (take k (ps_Containers (p_Spec pod))))
                (ps_Containers (p_Spec pod) ! k)))"
  by (auto simp: typedChecks_raw_def set_containersLoop_raw apiVersionCheck_def kindCheck_def
      containersRequired_def split: if_splits)

lemma indexed_in_raw_out:
  assumes "fs path = Inr doc" and "typedErr doc = None" and "indexed_line (Base path) l"
  shows "l \<in> set (fst (validatePod_raw fs path)) \<longleftrightarrow>
     (\<exists>k<length (ps_Containers (p_Spec (typed doc))).
        l \<in> set (containerBody_raw (Base path) k
                (foldl nameSeen (\<lambda>n. False) (take k (ps_Containers (p_Spec (typed doc)))))
                (ps_Containers (p_Spec (typed doc)) ! k)))"
proof -
  have "l \<notin> set (rawChecks (Base path) (rawMap doc))"
    using assms(3) rawChecks_marked indexed_plain by blast
  then show ?thesis
    using assms by (simp add: validatePod_raw_def indexed_in_typedChecks_raw)
qed

lemma indexed_in_strict_out:
  assumes "fs path = Inr doc" and "typedErr doc = None" and "indexed_line path l"
  shows "l \<in> set (fst (validatePod fs path)) \<longleftrightarrow>
     (\<exists>k<length (ps_Containers (p_Spec (typed doc))).
        l \<in> set (containerBody path k
                (foldl nameSeen (\<lambda>n. False) (take k (ps_Containers (p_Spec (typed doc)))))
                (ps_Containers (p_Spec (typed doc)) ! k)))"
  using assms by (simp add: validatePod_ok indexed_in_podChecks)

subsection \<open>What the matcher decides\<close>

lemma nullable_lang: "nullable r \<longleftrightarrow> [] \<in> lang r"
  by (induction r) (auto intro: star.intros)

lemma star_cons:
  "c # s \<in> star L \<longleftrightarrow> (\<exists>u v. s = u @ v \<and> c # u \<in> L \<and> v \<in> star L)"
proof
  assume "c # s \<in> star L"
  have gen: "x \<in> star L \<Longrightarrow> x = c # s \<Longrightarrow> \<exists>u v. s = u @ v \<and> c # u \<in> L \<and> v \<in> star L"
    for x s
  proof (induction arbitrary: s rule: star.induct)
    case star_nil
    then show ?case by simp
  next
    case (star_app u v)
    show ?case
    proof (cases u)
      case Nil
      with star_app show ?thesis by simp
    next
      case (Cons a u')
      with star_app have "a = c" "s = u' @ v" by simp_all
      with Cons star_app show ?thesis by blast
    qed
  qed
  from gen [OF \<open>c # s \<in> star L\<close> refl]
  show "\<exists>u v. s = u @ v \<and> c # u \<in> L \<and> v \<in> star L" .
next
  assume "\<exists>u v. s = u @ v \<and> c # u \<in> L \<and> v \<in> star L"
  then obtain u v where "s = u @ v" "c # u \<in> L" "v \<in> star L" by blast
  then have "(c # u) @ v \<in> star L" by (blast intro: star.intros)
  with \<open>s = u @ v\<close> show "c # s \<in> star L" by simp
qed

lemma deriv_lang: "s \<in> lang (deriv c r) \<longleftrightarrow> c # s \<in> lang r"
proof (induction r arbitrary: s)
  case (Cat r1 r2)
  show ?case
  proof (cases "nullable r1")
    case True
    then have "[] \<in> lang r1" by (simp add: nullable_lang)
    with True Cat show ?thesis
      by (auto simp: Cons_eq_append_conv)
  next
    case False
    then have "[] \<notin> lang r1" by (simp add: nullable_lang)
    with False Cat show ?thesis
      by (auto simp: Cons_eq_append_conv)
  qed
next
  case (Star r)
  then show ?case by (auto simp: star_cons)
qed auto

lemma matches_lang: "matches r s \<longleftrightarrow> s \<in> lang r"
  by (induction s arbitrary: r) (simp_all add: nullable_lang deriv_lang)


lemma lang_word: "lang (word w) = {w}"
  by (induction w) auto

lemma star_digits:
  "star {[c] | c. is_digit c} = {ds. list_all is_digit ds}"
proof
  show "star {[c] | c. is_digit c} \<subseteq> {ds. list_all is_digit ds}"
  proof
    fix x
    assume "x \<in> star {[c] | c. is_digit c}"
    then have "list_all is_digit x"
      by (induction rule: star.induct) auto
    then show "x \<in> {ds. list_all is_digit ds}" by simp
  qed
next
  have "list_all is_digit ds \<Longrightarrow> ds \<in> star {[c] | c. is_digit c}" for ds
  proof (induction ds)
    case Nil
    show ?case by (rule star_nil)
  next
    case (Cons c ds)
    then have "[c] \<in> {[c] | c. is_digit c}" "ds \<in> star {[c] | c. is_digit c}" by auto
    then have "[c] @ ds \<in> star {[c] | c. is_digit c}" by (rule star_app)
    then show ?case by simp
  qed
  then show "{ds. list_all is_digit ds} \<subseteq> star {[c] | c. is_digit c}" by blast
qed

lemma lang_digit: "lang (Range CHR ''0'' CHR ''9'') = {[c] | c. is_digit c}"
  by (simp add: is_digit_def)

lemma lang_digits:
  "lang (Plus (Range CHR ''0'' CHR ''9'')) = {ds. ds \<noteq> [] \<and> list_all is_digit ds}"
proof -
  have "lang (Plus (Range CHR ''0'' CHR ''9''))
      = {u @ v | u v. u \<in> {[c] | c. is_digit c} \<and> list_all is_digit v}"
    by (simp only: lang.simps(5,7) lang_digit star_digits mem_Collect_eq)
  also have "\<dots> = {ds. ds \<noteq> [] \<and> list_all is_digit ds}"
  proof (intro set_eqI iffI)
    fix x
    assume "x \<in> {u @ v | u v. u \<in> {[c] | c. is_digit c} \<and> list_all is_digit v}"
    then show "x \<in> {ds. ds \<noteq> [] \<and> list_all is_digit ds}" by auto
  next
    fix x
    assume "x \<in> {ds. ds \<noteq> [] \<and> list_all is_digit ds}"
    then obtain c ds where "x = [c] @ ds" "is_digit c" "list_all is_digit ds"
      by (cases x) auto
    then show "x \<in> {u @ v | u v. u \<in> {[c] | c. is_digit c} \<and> list_all is_digit v}"
      by blast
  qed
  finally show ?thesis .
qed

lemma lang_memory_pattern:
  "lang memory_pattern =
     {ds @ u | ds u. ds \<noteq> [] \<and> list_all is_digit ds \<and> u \<in> {''Ki'', ''Mi'', ''Gi''}}"
proof -
  have "lang (Alt (word ''Ki'') (Alt (word ''Mi'') (word ''Gi''))) = {''Ki'', ''Mi'', ''Gi''}"
    by (simp only: lang.simps(6) lang_word Un_insert_left Un_empty_left)
  moreover have "lang memory_pattern =
      {u @ v | u v. u \<in> lang (Plus (Range CHR ''0'' CHR ''9''))
                 \<and> v \<in> lang (Alt (word ''Ki'') (Alt (word ''Mi'') (word ''Gi'')))}"
    unfolding memory_pattern_def by (rule lang.simps(5))
  ultimately show ?thesis
    by (simp only: lang_digits mem_Collect_eq conj_assoc)
qed

lemma isValidMemoryFormat_iff: "isValidMemoryFormat mem \<longleftrightarrow> memory_quantity mem"
proof
  assume "isValidMemoryFormat mem"
  then have "mem \<in> lang memory_pattern"
    by (simp add: isValidMemoryFormat_def matches_lang)
  then obtain ds u where m: "mem = ds @ u" "ds \<noteq> []" "list_all is_digit ds"
      "u \<in> {''Ki'', ''Mi'', ''Gi''}"
    unfolding lang_memory_pattern by blast
  then have "length u = 2" by auto
  with m show "memory_quantity mem"
    by (simp add: memory_quantity_def)
next
  assume q: "memory_quantity mem"
  let ?ds = "take (length mem - 2) mem" and ?u = "drop (length mem - 2) mem"
  from q have "mem = ?ds @ ?u" "?ds \<noteq> []" "list_all is_digit ?ds"
      "?u \<in> {''Ki'', ''Mi'', ''Gi''}"
    by (auto simp: memory_quantity_def)
  then have "mem \<in> lang memory_pattern"
    unfolding lang_memory_pattern by blast
  then show "isValidMemoryFormat mem"
    by (simp add: isValidMemoryFormat_def matches_lang)
qed

subsection \<open>Where the lines of the memory rule come from\<close>

lemma requests_memory_line_in_body:
  "src @ '': spec.containers['' @ show_nat i @ ''].resources.requests.memory has invalid format ''
       @ quoted v @ ''\<newline>'' \<in> set (containerBody src k seen c) \<longleftrightarrow>
   k = i \<and> (case rr_Requests (c_Resources c) of None \<Rightarrow> False
            | Some entries \<Rightarrow> (''memory'', v) \<in> set entries \<and> \<not> isValidMemoryFormat v)"
  by (force simp: line_defs set_portsLoop split: option.splits)

lemma limits_memory_line_in_body:
  "src @ '': spec.containers['' @ show_nat i @ ''].resources.limits.memory has invalid format ''
       @ quoted v @ ''\<newline>'' \<in> set (containerBody src k seen c) \<longleftrightarrow>
   k = i \<and> (case rr_Limits (c_Resources c) of None \<Rightarrow> False
            | Some entries \<Rightarrow> (''memory'', v) \<in> set entries \<and> \<not> isValidMemoryFormat v)"
  by (force simp: line_defs set_portsLoop split: option.splits)

lemma requests_memory_line_in_body_raw:
  "src @ '': spec.containers['' @ show_nat i @ ''].resources.requests.memory has invalid format ''
       @ quoted v @ ''\<newline>'' \<in> set (containerBody_raw src k seen c) \<longleftrightarrow>
   k = i \<and> (case rr_Requests (c_Resources c) of None \<Rightarrow> False
            | Some entries \<Rightarrow> (''memory'', v) \<in> set entries \<and> \<not> isValidMemoryFormat v)"
  by (force simp: line_defs set_portsLoop_raw split: option.splits)

lemma limits_memory_line_in_body_raw:
  "src @ '': spec.containers['' @ show_nat i @ ''].resources.limits.memory has invalid format ''
       @ quoted v @ ''\<newline>'' \<in> set (containerBody_raw src k seen c) \<longleftrightarrow>
   k = i \<and> (case rr_Limits (c_Resources c) of None \<Rightarrow> False
            | Some entries \<Rightarrow> (''memory'', v) \<in> set entries \<and> \<not> isValidMemoryFormat v)"
  by (force simp: line_defs set_portsLoop_raw split: option.splits)

subsection \<open>The formats of the lines of an output\<close>



lemma marked_lines_rawI:
  "src @ '':4 name is required\<newline>'' \<in> marked_lines_raw src"
  "src @ '':15 containerPort value out of range\<newline>'' \<in> marked_lines_raw src"
  "src @ '':24 port value out of range\<newline>'' \<in> marked_lines_raw src"
  "src @ '':27 cpu must be int\<newline>'' \<in> marked_lines_raw src"
  "src @ '':10 os has unsupported value '' @ quoted v @ ''\<newline>'' \<in> marked_lines_raw src"
  by (simp_all add: marked_lines_raw_def)
























lemma plain_name_line_not_marked:
  "src @ '': name is required\<newline>'' \<notin> marked_lines src"
  "src @ '': name is required\<newline>'' \<notin> marked_lines_raw src"
  by (simp_all add: marked_lines_def marked_lines_raw_def)



lemma name4_shape [simp]:
  "\<not> plain_line src (src @ '':4 name is required\<newline>'')"
  "\<not> indexed_line src (src @ '':4 name is required\<newline>'')"
  by simp_all




subsection \<open>A manifest that satisfies every rule\<close>

text \<open>
  C1. A manifest that satisfies every rule of the catalog gives no diagnostic and exit
  status zero. For the scenario of section 8 (\<open>apiVersion: v1\<close>, \<open>kind: Pod\<close>,
  \<open>metadata: {name: web}\<close>, one container \<open>web_server\<close> with an image of the
  registry) both source files do so. The same manifest with \<open>spec.os: linux\<close>, a
  value that the rule for \<open>os\<close> accepts, still satisfies every rule, and the second
  source file gives no diagnostic and returns; yamlvalid.go returns the error of the
  typed parse, \<open>runValidator\<close> prints it and exits with status 1.
\<close>

theorem valid_manifest_with_os_linux_exits_1:
  "runValidator (\<lambda>f. Inr scenario_document) [''yamlvalid'', ''pod.yaml''] = ([], None)
   \<and> runValidator_raw (\<lambda>f. Inr scenario_document) [''yamlvalid'', ''pod.yaml''] = ([], None)
   \<and> exit_status (snd (runValidator (\<lambda>f. Inr scenario_document) [''yamlvalid'', ''pod.yaml'']))
       = 0
   \<and> runValidator_raw (\<lambda>f. Inr (with_os_linux scenario_document)) [''yamlvalid'', ''pod.yaml'']
       = ([], None)
   \<and> runValidator (\<lambda>f. Inr (with_os_linux scenario_document)) [''yamlvalid'', ''pod.yaml'']
       = ([''Error: invalid YAML format: '' @ shape_error @ ''\<newline>''], Some 1)
   \<and> exit_status
         (snd (runValidator (\<lambda>f. Inr (with_os_linux scenario_document))
                 [''yamlvalid'', ''pod.yaml'']))
       = 1"
  by code_simp

subsection \<open>A typed parse that fails on the shape of a field\<close>

text \<open>
  C2. When the typed parse fails only because \<open>spec.os\<close> is a bare string, validation
  should go on and the untyped pass should cover the field: one diagnostic for
  \<open>macos\<close>, none for \<open>linux\<close>, and no abort. The second source file does that.
  \<open>validatePod\<close> of yamlvalid.go returns the error of the typed parse before its own
  check of the bare string is reached: nothing is reported for \<open>macos\<close>, and for both
  values \<open>runValidator\<close> prints the error and exits with status 1.
\<close>

theorem os_bare_string_aborts_yamlvalid:
  "runValidator (\<lambda>f. Inr (os_document ''macos'' p e)) [''yamlvalid'', ''pod.yaml'']
     = ([''Error: invalid YAML format: '' @ e @ ''\<newline>''], Some 1)
   \<and> runValidator (\<lambda>f. Inr (os_document ''linux'' p e)) [''yamlvalid'', ''pod.yaml'']
     = ([''Error: invalid YAML format: '' @ e @ ''\<newline>''], Some 1)
   \<and> runValidator_raw (\<lambda>f. Inr (os_document ''macos'' p e)) [''yamlvalid'', ''pod.yaml'']
     = ([''pod.yaml:10 os has unsupported value '' @ quoted ''macos'' @ ''\<newline>''], None)
   \<and> runValidator_raw (\<lambda>f. Inr (os_document ''linux'' p e)) [''yamlvalid'', ''pod.yaml'']
     = ([], None)"
  by (simp add: runValidator_def validatePod_def runValidator_raw_def validatePod_raw_def
      os_document_def mkRaw_def mkRawContainer_def rawChecks_def metaNameCheck_raw_def
      osCheck_def portCheck_raw_def probeCheck_raw_def cpuCheck_raw_def firstContainer_raw_def
      Base_def)

subsection \<open>Range rules beyond the first container and the first port\<close>

text \<open>
  C3. No violation stops the validation, and the range rules for \<open>containerPort\<close> and
  for the probe ports apply to every container and every port. \<open>validatePod\<close> of
  yamlvalid.go does so: on the document
  with the ports 80 and 0 in the first container, 70000 in the second and a readiness
  probe on port 0 in the second, it reports the three violations in document order. The
  second source file looks only at the first port and the probes of the first container
  of the untyped mapping, and its loop over the typed containers prints nothing for
  ports: it reports none of the three.
\<close>

theorem later_ports_unchecked_second_file:
  "validatePod (\<lambda>f. Inr ports_document) ''pod.yaml''
     = ([''pod.yaml: spec.containers[0].ports[1].containerPort value out of range\<newline>'',
         ''pod.yaml: spec.containers[1].ports[0].containerPort value out of range\<newline>'',
         ''pod.yaml: spec.containers[1].readinessProbe.httpGet.port value out of range\<newline>''],
        None)
   \<and> validatePod_raw (\<lambda>f. Inr ports_document) ''pod.yaml'' = ([], None)"
  by code_simp

subsection \<open>The format of the diagnostic lines\<close>




subsection \<open>The two diagnostics of apiVersion and of kind\<close>

text \<open>
  C5, as amended. The claim speaks of every document in which \<open>apiVersion\<close> is
  missing or empty. Both source files print the lines of \<open>apiVersion\<close> and
  \<open>kind\<close> only after a typed parse without error (see the counterexample below), so
  the first part holds with that condition: a document whose typed parse succeeded and
  whose \<open>apiVersion\<close> is missing or empty (both leave the empty string in the typed
  structure) gets the line "apiVersion is required" exactly once and no line
  "apiVersion has unsupported value". The second part holds as stated: on every input,
  whatever the file system and the parse return, the two lines never occur together.
  The same holds for \<open>kind\<close>, and in both source files (the second one reports under
  the base name of the path).
\<close>

theorem apiVersion_kind_required_exclusive:
  "(fs path = Inr doc \<and> typedErr doc = None \<and> p_APIVersion (typed doc) = [] \<longrightarrow>
      count_list (fst (validatePod fs path)) (path @ '': apiVersion is required\<newline>'') = 1
      \<and> (\<forall>v. path @ '': apiVersion has unsupported value '' @ quoted v @ ''\<newline>''
              \<notin> set (fst (validatePod fs path)))
      \<and> count_list (fst (validatePod_raw fs path))
            (Base path @ '': apiVersion is required\<newline>'') = 1
      \<and> (\<forall>v. Base path @ '': apiVersion has unsupported value '' @ quoted v @ ''\<newline>''
              \<notin> set (fst (validatePod_raw fs path))))
   \<and> (fs path = Inr doc \<and> typedErr doc = None \<and> p_Kind (typed doc) = [] \<longrightarrow>
      count_list (fst (validatePod fs path)) (path @ '': kind is required\<newline>'') = 1
      \<and> (\<forall>v. path @ '': kind has unsupported value '' @ quoted v @ ''\<newline>''
              \<notin> set (fst (validatePod fs path)))
      \<and> count_list (fst (validatePod_raw fs path)) (Base path @ '': kind is required\<newline>'') = 1
      \<and> (\<forall>v. Base path @ '': kind has unsupported value '' @ quoted v @ ''\<newline>''
              \<notin> set (fst (validatePod_raw fs path))))
   \<and> (\<forall>v. \<not> (path @ '': apiVersion is required\<newline>'' \<in> set (fst (validatePod fs path))
            \<and> path @ '': apiVersion has unsupported value '' @ quoted v @ ''\<newline>''
                \<in> set (fst (validatePod fs path))))
   \<and> (\<forall>v. \<not> (path @ '': kind is required\<newline>'' \<in> set (fst (validatePod fs path))
            \<and> path @ '': kind has unsupported value '' @ quoted v @ ''\<newline>''
                \<in> set (fst (validatePod fs path))))
   \<and> (\<forall>v. \<not> (Base path @ '': apiVersion is required\<newline>''
                \<in> set (fst (validatePod_raw fs path))
            \<and> Base path @ '': apiVersion has unsupported value '' @ quoted v @ ''\<newline>''
                \<in> set (fst (validatePod_raw fs path))))
   \<and> (\<forall>v. \<not> (Base path @ '': kind is required\<newline>'' \<in> set (fst (validatePod_raw fs path))
            \<and> Base path @ '': kind has unsupported value '' @ quoted v @ ''\<newline>''
                \<in> set (fst (validatePod_raw fs path))))"
proof -
  have s1: "count_list (fst (validatePod fs path)) (path @ '': apiVersion is required\<newline>'')
      = (case fs path of Inl e \<Rightarrow> 0
         | Inr doc \<Rightarrow> (case typedErr doc of Some e \<Rightarrow> 0
             | None \<Rightarrow> if p_APIVersion (typed doc) = [] then 1 else 0))"
    by (subst strict_top_count) (simp_all only: top_lines_shape required_count simp_thms)
  have s2: "count_list (fst (validatePod fs path))
        (path @ '': apiVersion has unsupported value '' @ quoted v @ ''\<newline>'')
      = (case fs path of Inl e \<Rightarrow> 0
         | Inr doc \<Rightarrow> (case typedErr doc of Some e \<Rightarrow> 0
             | None \<Rightarrow> if p_APIVersion (typed doc) \<noteq> [] \<and> p_APIVersion (typed doc) \<noteq> ''v1''
                          \<and> v = p_APIVersion (typed doc) then 1 else 0))" for v
    by (subst strict_top_count) (simp_all only: top_lines_shape unsupported_count simp_thms)
  have s3: "count_list (fst (validatePod fs path)) (path @ '': kind is required\<newline>'')
      = (case fs path of Inl e \<Rightarrow> 0
         | Inr doc \<Rightarrow> (case typedErr doc of Some e \<Rightarrow> 0
             | None \<Rightarrow> if p_Kind (typed doc) = [] then 1 else 0))"
    by (subst strict_top_count) (simp_all only: top_lines_shape required_count simp_thms)
  have s4: "count_list (fst (validatePod fs path))
        (path @ '': kind has unsupported value '' @ quoted v @ ''\<newline>'')
      = (case fs path of Inl e \<Rightarrow> 0
         | Inr doc \<Rightarrow> (case typedErr doc of Some e \<Rightarrow> 0
             | None \<Rightarrow> if p_Kind (typed doc) \<noteq> [] \<and> p_Kind (typed doc) \<noteq> ''Pod''
                          \<and> v = p_Kind (typed doc) then 1 else 0))" for v
    by (subst strict_top_count) (simp_all only: top_lines_shape unsupported_count simp_thms)
  have r1: "count_list (fst (validatePod_raw fs path))
        (Base path @ '': apiVersion is required\<newline>'')
      = (case fs path of Inl e \<Rightarrow> 0
         | Inr doc \<Rightarrow> (case typedErr doc of Some e \<Rightarrow> 0
             | None \<Rightarrow> if p_APIVersion (typed doc) = [] then 1 else 0))"
    by (subst raw_top_count) (simp_all only: top_lines_shape required_count simp_thms)
  have r2: "count_list (fst (validatePod_raw fs path))
        (Base path @ '': apiVersion has unsupported value '' @ quoted v @ ''\<newline>'')
      = (case fs path of Inl e \<Rightarrow> 0
         | Inr doc \<Rightarrow> (case typedErr doc of Some e \<Rightarrow> 0
             | None \<Rightarrow> if p_APIVersion (typed doc) \<noteq> [] \<and> p_APIVersion (typed doc) \<noteq> ''v1''
                          \<and> v = p_APIVersion (typed doc) then 1 else 0))" for v
    by (subst raw_top_count) (simp_all only: top_lines_shape unsupported_count simp_thms)
  have r3: "count_list (fst (validatePod_raw fs path)) (Base path @ '': kind is required\<newline>'')
      = (case fs path of Inl e \<Rightarrow> 0
         | Inr doc \<Rightarrow> (case typedErr doc of Some e \<Rightarrow> 0
             | None \<Rightarrow> if p_Kind (typed doc) = [] then 1 else 0))"
    by (subst raw_top_count) (simp_all only: top_lines_shape required_count simp_thms)
  have r4: "count_list (fst (validatePod_raw fs path))
        (Base path @ '': kind has unsupported value '' @ quoted v @ ''\<newline>'')
      = (case fs path of Inl e \<Rightarrow> 0
         | Inr doc \<Rightarrow> (case typedErr doc of Some e \<Rightarrow> 0
             | None \<Rightarrow> if p_Kind (typed doc) \<noteq> [] \<and> p_Kind (typed doc) \<noteq> ''Pod''
                          \<and> v = p_Kind (typed doc) then 1 else 0))" for v
    by (subst raw_top_count) (simp_all only: top_lines_shape unsupported_count simp_thms)
  show ?thesis
    unfolding in_set_count s1 s2 s3 s4 r1 r2 r3 r4
    by (simp split: sum.splits option.splits)
qed

theorem apiVersion_kind_required_exclusive_witness:
  "typedErr headless_document = None
   \<and> p_APIVersion (typed headless_document) = []
   \<and> p_Kind (typed headless_document) = []
   \<and> count_list (fst (validatePod (\<lambda>f. Inr headless_document) ''pod.yaml''))
        ''pod.yaml: apiVersion is required\<newline>'' = 1
   \<and> count_list (fst (validatePod (\<lambda>f. Inr headless_document) ''pod.yaml''))
        ''pod.yaml: kind is required\<newline>'' = 1
   \<and> count_list (fst (validatePod_raw (\<lambda>f. Inr headless_document) ''pod.yaml''))
        ''pod.yaml: apiVersion is required\<newline>'' = 1
   \<and> count_list (fst (validatePod_raw (\<lambda>f. Inr headless_document) ''pod.yaml''))
        ''pod.yaml: kind is required\<newline>'' = 1"
proof -
  have h: "typedErr headless_document = None" "p_APIVersion (typed headless_document) = []"
    "p_Kind (typed headless_document) = []"
    by (simp_all add: headless_document_def mkPod_def)
  have b: "Base ''pod.yaml'' = ''pod.yaml''"
    by (simp add: Base_def)
  from apiVersion_kind_required_exclusive
    [of "\<lambda>f. Inr headless_document" "''pod.yaml''" headless_document]
  show ?thesis
    by (simp add: h b)
qed

text \<open>
  The claim as stated fails at the manifest without \<open>apiVersion\<close> and \<open>kind\<close>
  and with \<open>spec.os: linux\<close>: the typed parse reports the shape of \<open>os\<close>,
  yamlvalid.go returns that error and the second source file returns after its checks
  on the untyped mapping, and neither prints "apiVersion is required".
\<close>

theorem apiVersion_required_counterexample:
  "p_APIVersion (typed (with_os_linux headless_document)) = []
   \<and> validatePod (\<lambda>f. Inr (with_os_linux headless_document)) ''pod.yaml''
      = ([], Some (''invalid YAML format: '' @ shape_error))
   \<and> validatePod_raw (\<lambda>f. Inr (with_os_linux headless_document)) ''pod.yaml'' = ([], None)"
  by code_simp

subsection \<open>Duplicate container names\<close>

text \<open>
  C6, as amended. The claim speaks of every containers sequence with a repeated name.
  Both source files reach the loop over the containers only after a typed parse without
  error (see the counterexample below), so it holds with that condition: in a document
  whose typed parse succeeded, the line "duplicate container name" of container \<open>i\<close>
  (with a non-empty name) is in the output exactly when an earlier container has the
  same name: at every repeated occurrence after the first, and not at the first. The
  line "invalid format" of container \<open>i\<close> is in the output exactly when the name is
  not snake case, whatever the other names are: the two diagnostics are independent, and
  a name that is repeated and badly formed gets both. Both source files have this loop.
\<close>

theorem duplicate_name_reported:
  assumes "fs path = Inr doc" and "typedErr doc = None"
  shows
    "\<forall>i<length (ps_Containers (p_Spec (typed doc))).
       c_Name (ps_Containers (p_Spec (typed doc)) ! i) \<noteq> [] \<longrightarrow>
       ((path @ '': spec.containers['' @ show_nat i @ ''].name duplicate container name ''
             @ quoted (c_Name (ps_Containers (p_Spec (typed doc)) ! i)) @ ''\<newline>''
           \<in> set (fst (validatePod fs path)))
         = (\<exists>j<i. c_Name (ps_Containers (p_Spec (typed doc)) ! j)
                    = c_Name (ps_Containers (p_Spec (typed doc)) ! i)))
       \<and> ((path @ '': spec.containers['' @ show_nat i @ ''].name has invalid format ''
             @ quoted (c_Name (ps_Containers (p_Spec (typed doc)) ! i)) @ ''\<newline>''
           \<in> set (fst (validatePod fs path)))
         = (\<not> isSnakeCase (c_Name (ps_Containers (p_Spec (typed doc)) ! i))))
       \<and> ((Base path @ '': spec.containers['' @ show_nat i @ ''].name duplicate container name ''
             @ quoted (c_Name (ps_Containers (p_Spec (typed doc)) ! i)) @ ''\<newline>''
           \<in> set (fst (validatePod_raw fs path)))
         = (\<exists>j<i. c_Name (ps_Containers (p_Spec (typed doc)) ! j)
                    = c_Name (ps_Containers (p_Spec (typed doc)) ! i)))
       \<and> ((Base path @ '': spec.containers['' @ show_nat i @ ''].name has invalid format ''
             @ quoted (c_Name (ps_Containers (p_Spec (typed doc)) ! i)) @ ''\<newline>''
           \<in> set (fst (validatePod_raw fs path)))
         = (\<not> isSnakeCase (c_Name (ps_Containers (p_Spec (typed doc)) ! i))))"
proof (intro allI impI)
  fix i
  let ?cs = "ps_Containers (p_Spec (typed doc))"
  let ?n = "c_Name (?cs ! i)"
  assume i: "i < length ?cs" and n: "?n \<noteq> []"
  have seen: "foldl nameSeen (\<lambda>n. False) (take i ?cs) ?n \<longleftrightarrow> (\<exists>j<i. c_Name (?cs ! j) = ?n)"
    using i n by (simp add: seen_before)
  have d: "path @ '': spec.containers['' @ show_nat i @ ''].name duplicate container name ''
             @ quoted ?n @ ''\<newline>'' \<in> set (fst (validatePod fs path))
           \<longleftrightarrow> (\<exists>j<i. c_Name (?cs ! j) = ?n)"
    using i n seen
    by (subst indexed_in_strict_out [of fs path doc, OF assms indexedI]) (simp only: dup_line_in_body, auto)
  have f: "path @ '': spec.containers['' @ show_nat i @ ''].name has invalid format ''
             @ quoted ?n @ ''\<newline>'' \<in> set (fst (validatePod fs path))
           \<longleftrightarrow> \<not> isSnakeCase ?n"
    using i n
    by (subst indexed_in_strict_out [of fs path doc, OF assms indexedI]) (simp only: invalid_line_in_body, auto)
  have d': "Base path @ '': spec.containers['' @ show_nat i @ ''].name duplicate container name ''
             @ quoted ?n @ ''\<newline>'' \<in> set (fst (validatePod_raw fs path))
           \<longleftrightarrow> (\<exists>j<i. c_Name (?cs ! j) = ?n)"
    using i n seen
    by (subst indexed_in_raw_out [of fs path doc, OF assms indexedI]) (simp only: dup_line_in_body_raw, auto)
  have f': "Base path @ '': spec.containers['' @ show_nat i @ ''].name has invalid format ''
             @ quoted ?n @ ''\<newline>'' \<in> set (fst (validatePod_raw fs path))
           \<longleftrightarrow> \<not> isSnakeCase ?n"
    using i n
    by (subst indexed_in_raw_out [of fs path doc, OF assms indexedI]) (simp only: invalid_line_in_body_raw, auto)
  from d f d' f'
  show "((path @ '': spec.containers['' @ show_nat i @ ''].name duplicate container name ''
             @ quoted ?n @ ''\<newline>'' \<in> set (fst (validatePod fs path)))
         = (\<exists>j<i. c_Name (?cs ! j) = ?n))
       \<and> ((path @ '': spec.containers['' @ show_nat i @ ''].name has invalid format ''
             @ quoted ?n @ ''\<newline>'' \<in> set (fst (validatePod fs path)))
         = (\<not> isSnakeCase ?n))
       \<and> ((Base path @ '': spec.containers['' @ show_nat i @ ''].name duplicate container name ''
             @ quoted ?n @ ''\<newline>'' \<in> set (fst (validatePod_raw fs path)))
         = (\<exists>j<i. c_Name (?cs ! j) = ?n))
       \<and> ((Base path @ '': spec.containers['' @ show_nat i @ ''].name has invalid format ''
             @ quoted ?n @ ''\<newline>'' \<in> set (fst (validatePod_raw fs path)))
         = (\<not> isSnakeCase ?n))"
    by (intro conjI)
qed

theorem duplicate_name_reported_witness:
  "typedErr (named_document [''Bad'', ''db'', ''Bad'']) = None
   \<and> ''pod.yaml: spec.containers[2].name duplicate container name '' @ quoted ''Bad'' @ ''\<newline>''
       \<in> set (fst (validatePod (\<lambda>f. Inr (named_document [''Bad'', ''db'', ''Bad''])) ''pod.yaml''))
   \<and> ''pod.yaml: spec.containers[2].name has invalid format '' @ quoted ''Bad'' @ ''\<newline>''
       \<in> set (fst (validatePod (\<lambda>f. Inr (named_document [''Bad'', ''db'', ''Bad''])) ''pod.yaml''))
   \<and> ''pod.yaml: spec.containers[0].name duplicate container name '' @ quoted ''Bad'' @ ''\<newline>''
       \<notin> set (fst (validatePod (\<lambda>f. Inr (named_document [''Bad'', ''db'', ''Bad''])) ''pod.yaml''))
   \<and> ''pod.yaml: spec.containers[2].name duplicate container name '' @ quoted ''Bad'' @ ''\<newline>''
       \<in> set (fst (validatePod_raw (\<lambda>f. Inr (named_document [''Bad'', ''db'', ''Bad''])) ''pod.yaml''))
   \<and> ''pod.yaml: spec.containers[2].name has invalid format '' @ quoted ''Bad'' @ ''\<newline>''
       \<in> set (fst (validatePod_raw (\<lambda>f. Inr (named_document [''Bad'', ''db'', ''Bad''])) ''pod.yaml''))"
proof -
  let ?d = "named_document [''Bad'', ''db'', ''Bad'']"
  have e: "typedErr ?d = None"
    by (simp add: named_document_def doc_of_def)
  have c: "ps_Containers (p_Spec (typed ?d)) =
      [mkContainer ''Bad'' good_image, mkContainer ''db'' good_image,
       mkContainer ''Bad'' good_image]"
    by (simp add: named_document_def doc_of_def mkPod_def)
  have s: "\<not> isSnakeCase ''Bad''"
    by code_simp
  have b: "Base ''pod.yaml'' = ''pod.yaml''"
    by (simp add: Base_def)
  have x: "\<exists>j<2. c_Name (ps_Containers (p_Spec (typed ?d)) ! j)
                 = c_Name (ps_Containers (p_Spec (typed ?d)) ! 2)"
    unfolding c by (rule exI [of _ 0]) (simp add: mkContainer_def)
  note T = duplicate_name_reported [of "\<lambda>f. Inr ?d" "''pod.yaml''" ?d, OF refl e, rule_format]
  from T [of 2] T [of 0] x show ?thesis
    by (simp add: c mkContainer_def s b e)
qed

text \<open>
  The claim as stated fails at the manifest with two containers named \<open>db\<close> and
  with \<open>spec.os: linux\<close>: the typed parse reports the shape of \<open>os\<close>, both
  source files return before the loop over the containers, and no "duplicate container
  name" line is printed.
\<close>

theorem duplicate_name_counterexample:
  "map c_Name (ps_Containers (p_Spec (typed (with_os_linux (named_document [''db'', ''db''])))))
     = [''db'', ''db'']
   \<and> validatePod (\<lambda>f. Inr (with_os_linux (named_document [''db'', ''db'']))) ''pod.yaml''
      = ([], Some (''invalid YAML format: '' @ shape_error))
   \<and> validatePod_raw (\<lambda>f. Inr (with_os_linux (named_document [''db'', ''db'']))) ''pod.yaml''
      = ([], None)"
  by code_simp

subsection \<open>The cpu rule\<close>

text \<open>
  C7. A \<open>cpu\<close> entry of \<open>resources.requests\<close> or \<open>resources.limits\<close> that is not an
  integer yields "cpu must be int" in every container, and \<open>"4"\<close> or \<open>4\<close> yields
  nothing. Neither source file does all of it. \<open>validatePod\<close> of yamlvalid.go checks
  \<open>cpu\<close> in the loop over \<open>limits\<close> only: \<open>requests: {cpu: "abc"}\<close> passes without
  a diagnostic. The second source file checks both mappings, but of the first container
  only: \<open>limits: {cpu: "abc"}\<close> in the second container passes. Where a file does
  check, \<open>"abc"\<close> is reported and \<open>"4"\<close> and \<open>4\<close> are not.
\<close>

theorem cpu_rule_gaps:
  "validatePod (\<lambda>f. Inr (requests_cpu_document ''abc'')) ''pod.yaml'' = ([], None)
   \<and> validatePod_raw (\<lambda>f. Inr second_cpu_document) ''pod.yaml'' = ([], None)
   \<and> validatePod (\<lambda>f. Inr (limits_cpu_document ''abc'')) ''pod.yaml''
       = ([''pod.yaml:30 cpu must be int\<newline>''], None)
   \<and> validatePod (\<lambda>f. Inr second_cpu_document) ''pod.yaml''
       = ([''pod.yaml:30 cpu must be int\<newline>''], None)
   \<and> validatePod_raw (\<lambda>f. Inr (requests_cpu_document ''abc'')) ''pod.yaml''
       = ([''pod.yaml:27 cpu must be int\<newline>''], None)
   \<and> validatePod_raw (\<lambda>f. Inr (limits_cpu_document ''abc'')) ''pod.yaml''
       = ([''pod.yaml:27 cpu must be int\<newline>''], None)
   \<and> validatePod (\<lambda>f. Inr (limits_cpu_document ''4'')) ''pod.yaml'' = ([], None)
   \<and> validatePod (\<lambda>f. Inr limits_cpu_literal_document) ''pod.yaml'' = ([], None)
   \<and> validatePod_raw (\<lambda>f. Inr (limits_cpu_document ''4'')) ''pod.yaml'' = ([], None)
   \<and> validatePod_raw (\<lambda>f. Inr (requests_cpu_document ''4'')) ''pod.yaml'' = ([], None)
   \<and> validatePod_raw (\<lambda>f. Inr limits_cpu_literal_document) ''pod.yaml'' = ([], None)"
  by code_simp

subsection \<open>The range of port numbers\<close>




subsection \<open>The format of memory values\<close>

text \<open>
  C9, as amended. The claim speaks of every \<open>memory\<close> entry of \<open>requests\<close> or
  \<open>limits\<close>. Both source files check these entries only after a typed parse without
  error (see the counterexample below), so it holds with that condition: in a document
  whose typed parse succeeded, the "invalid format" line of a \<open>memory\<close> entry is in
  the output if and only if the value is not one or more digits followed by \<open>Ki\<close>,
  \<open>Mi\<close> or \<open>Gi\<close>, which is what the anchored pattern of
  \<open>isValidMemoryFormat\<close> accepts. So \<open>512Ki\<close>, \<open>1Gi\<close> and \<open>500Mi\<close> give no
  diagnostic, and \<open>512\<close>, \<open>1GB\<close> and \<open>Ki\<close> give one each. Both source files
  have this rule.
\<close>

theorem memory_format_reported_iff:
  assumes "fs path = Inr doc" and "typedErr doc = None"
  shows
    "\<forall>i<length (ps_Containers (p_Spec (typed doc))). \<forall>v es.
       (rr_Requests (c_Resources (ps_Containers (p_Spec (typed doc)) ! i)) = Some es
        \<and> (''memory'', v) \<in> set es \<longrightarrow>
          ((path @ '': spec.containers['' @ show_nat i
               @ ''].resources.requests.memory has invalid format '' @ quoted v @ ''\<newline>''
             \<in> set (fst (validatePod fs path))) = (\<not> memory_quantity v))
          \<and> ((Base path @ '': spec.containers['' @ show_nat i
               @ ''].resources.requests.memory has invalid format '' @ quoted v @ ''\<newline>''
             \<in> set (fst (validatePod_raw fs path))) = (\<not> memory_quantity v)))
       \<and> (rr_Limits (c_Resources (ps_Containers (p_Spec (typed doc)) ! i)) = Some es
        \<and> (''memory'', v) \<in> set es \<longrightarrow>
          ((path @ '': spec.containers['' @ show_nat i
               @ ''].resources.limits.memory has invalid format '' @ quoted v @ ''\<newline>''
             \<in> set (fst (validatePod fs path))) = (\<not> memory_quantity v))
          \<and> ((Base path @ '': spec.containers['' @ show_nat i
               @ ''].resources.limits.memory has invalid format '' @ quoted v @ ''\<newline>''
             \<in> set (fst (validatePod_raw fs path))) = (\<not> memory_quantity v)))"
proof (intro allI impI conjI; elim conjE)
  fix i v es
  let ?cs = "ps_Containers (p_Spec (typed doc))"
  assume i: "i < length ?cs"
  {
    assume r: "rr_Requests (c_Resources (?cs ! i)) = Some es" "(''memory'', v) \<in> set es"
    show "(path @ '': spec.containers['' @ show_nat i
               @ ''].resources.requests.memory has invalid format '' @ quoted v @ ''\<newline>''
             \<in> set (fst (validatePod fs path))) = (\<not> memory_quantity v)"
      using i r
      by (subst indexed_in_strict_out [of fs path doc, OF assms indexedI])
        (simp only: requests_memory_line_in_body isValidMemoryFormat_iff, auto)
    show "(Base path @ '': spec.containers['' @ show_nat i
               @ ''].resources.requests.memory has invalid format '' @ quoted v @ ''\<newline>''
             \<in> set (fst (validatePod_raw fs path))) = (\<not> memory_quantity v)"
      using i r
      by (subst indexed_in_raw_out [of fs path doc, OF assms indexedI])
        (simp only: requests_memory_line_in_body_raw isValidMemoryFormat_iff, auto)
  }
  {
    assume r: "rr_Limits (c_Resources (?cs ! i)) = Some es" "(''memory'', v) \<in> set es"
    show "(path @ '': spec.containers['' @ show_nat i
               @ ''].resources.limits.memory has invalid format '' @ quoted v @ ''\<newline>''
             \<in> set (fst (validatePod fs path))) = (\<not> memory_quantity v)"
      using i r
      by (subst indexed_in_strict_out [of fs path doc, OF assms indexedI])
        (simp only: limits_memory_line_in_body isValidMemoryFormat_iff, auto)
    show "(Base path @ '': spec.containers['' @ show_nat i
               @ ''].resources.limits.memory has invalid format '' @ quoted v @ ''\<newline>''
             \<in> set (fst (validatePod_raw fs path))) = (\<not> memory_quantity v)"
      using i r
      by (subst indexed_in_raw_out [of fs path doc, OF assms indexedI])
        (simp only: limits_memory_line_in_body_raw isValidMemoryFormat_iff, auto)
  }
qed

theorem memory_format_reported_iff_witness:
  "typedErr (memory_document ''512Ki'') = None
   \<and> ''pod.yaml: spec.containers[0].resources.requests.memory has invalid format '' @ quoted ''512Ki''
         @ ''\<newline>'' \<notin> set (fst (validatePod (\<lambda>f. Inr (memory_document ''512Ki'')) ''pod.yaml''))
   \<and> ''pod.yaml: spec.containers[0].resources.requests.memory has invalid format '' @ quoted ''1Gi''
         @ ''\<newline>'' \<notin> set (fst (validatePod (\<lambda>f. Inr (memory_document ''1Gi'')) ''pod.yaml''))
   \<and> ''pod.yaml: spec.containers[0].resources.requests.memory has invalid format '' @ quoted ''500Mi''
         @ ''\<newline>'' \<notin> set (fst (validatePod (\<lambda>f. Inr (memory_document ''500Mi'')) ''pod.yaml''))
   \<and> ''pod.yaml: spec.containers[0].resources.requests.memory has invalid format '' @ quoted ''512''
         @ ''\<newline>'' \<in> set (fst (validatePod (\<lambda>f. Inr (memory_document ''512'')) ''pod.yaml''))
   \<and> ''pod.yaml: spec.containers[0].resources.requests.memory has invalid format '' @ quoted ''1GB''
         @ ''\<newline>'' \<in> set (fst (validatePod (\<lambda>f. Inr (memory_document ''1GB'')) ''pod.yaml''))
   \<and> ''pod.yaml: spec.containers[0].resources.requests.memory has invalid format '' @ quoted ''Ki''
         @ ''\<newline>'' \<in> set (fst (validatePod (\<lambda>f. Inr (memory_document ''Ki'')) ''pod.yaml''))
   \<and> ''pod.yaml: spec.containers[0].resources.limits.memory has invalid format '' @ quoted ''1Gi''
         @ ''\<newline>'' \<notin> set (fst (validatePod (\<lambda>f. Inr (memory_document ''1Gi'')) ''pod.yaml''))
   \<and> ''pod.yaml: spec.containers[0].resources.limits.memory has invalid format '' @ quoted ''1GB''
         @ ''\<newline>'' \<in> set (fst (validatePod (\<lambda>f. Inr (memory_document ''1GB'')) ''pod.yaml''))
   \<and> ''pod.yaml: spec.containers[0].resources.requests.memory has invalid format '' @ quoted ''500Mi''
         @ ''\<newline>'' \<notin> set (fst (validatePod_raw (\<lambda>f. Inr (memory_document ''500Mi'')) ''pod.yaml''))
   \<and> ''pod.yaml: spec.containers[0].resources.limits.memory has invalid format '' @ quoted ''Ki''
         @ ''\<newline>'' \<in> set (fst (validatePod_raw (\<lambda>f. Inr (memory_document ''Ki'')) ''pod.yaml''))"
proof -
  have e: "typedErr (memory_document v) = None" for v
    by (simp add: memory_document_def doc_of_def)
  have c: "ps_Containers (p_Spec (typed (memory_document v))) =
      [(mkContainer ''web_server'' good_image)
          \<lparr>c_Resources := \<lparr>rr_Requests = Some [(''memory'', v)],
                           rr_Limits = Some [(''memory'', v)]\<rparr>\<rparr>]" for v
    by (simp add: memory_document_def doc_of_def mkPod_def)
  have b: "Base ''pod.yaml'' = ''pod.yaml''"
    by (simp add: Base_def)
  have q: "memory_quantity ''512Ki''" "memory_quantity ''1Gi''" "memory_quantity ''500Mi''"
    "\<not> memory_quantity ''512''" "\<not> memory_quantity ''1GB''" "\<not> memory_quantity ''Ki''"
    by code_simp+
  have T: "(''pod.yaml: spec.containers[0].resources.requests.memory has invalid format '' @ quoted v
           @ ''\<newline>'' \<in> set (fst (validatePod (\<lambda>f. Inr (memory_document v)) ''pod.yaml'')))
        = (\<not> memory_quantity v)
      \<and> (''pod.yaml: spec.containers[0].resources.requests.memory has invalid format '' @ quoted v
           @ ''\<newline>'' \<in> set (fst (validatePod_raw (\<lambda>f. Inr (memory_document v)) ''pod.yaml'')))
        = (\<not> memory_quantity v)
      \<and> (''pod.yaml: spec.containers[0].resources.limits.memory has invalid format '' @ quoted v
           @ ''\<newline>'' \<in> set (fst (validatePod (\<lambda>f. Inr (memory_document v)) ''pod.yaml'')))
        = (\<not> memory_quantity v)
      \<and> (''pod.yaml: spec.containers[0].resources.limits.memory has invalid format '' @ quoted v
           @ ''\<newline>'' \<in> set (fst (validatePod_raw (\<lambda>f. Inr (memory_document v)) ''pod.yaml'')))
        = (\<not> memory_quantity v)" for v
    using memory_format_reported_iff
      [of "\<lambda>f. Inr (memory_document v)" "''pod.yaml''" "memory_document v",
        OF refl e, rule_format, where i = 0 and v = v and es = "[(''memory'', v)]"]
    by (simp add: c b mkContainer_def)
  from T [of "''512Ki''"] T [of "''1Gi''"] T [of "''500Mi''"]
    T [of "''512''"] T [of "''1GB''"] T [of "''Ki''"]
  show ?thesis
    by (simp add: e q)
qed

text \<open>
  The claim as stated fails at the manifest with \<open>memory: 1GB\<close> in \<open>requests\<close>
  and \<open>limits\<close> and with \<open>spec.os: linux\<close>: the typed parse reports the shape of
  \<open>os\<close>, both source files return before the loop over the containers, and no
  "invalid format" line is printed.
\<close>

theorem memory_format_counterexample:
  "rr_Requests (c_Resources (ps_Containers (p_Spec (typed (with_os_linux (memory_document ''1GB'')))) ! 0))
     = Some [(''memory'', ''1GB'')]
   \<and> \<not> memory_quantity ''1GB''
   \<and> validatePod (\<lambda>f. Inr (with_os_linux (memory_document ''1GB''))) ''pod.yaml''
      = ([], Some (''invalid YAML format: '' @ shape_error))
   \<and> validatePod_raw (\<lambda>f. Inr (with_os_linux (memory_document ''1GB''))) ''pod.yaml''
      = ([], None)"
  by code_simp

subsection \<open>Containers with an empty name\<close>

text \<open>
  C10. A container with the empty name gets the "name is required" diagnostic and no
  other diagnostic for its name, and it does not enter the set of seen names, so
  several empty names never count as duplicates. \<open>validatePod\<close> of yamlvalid.go
  behaves so: two empty names give two "name is required" lines and nothing else. In
  the second source file the branch for the empty name is empty: no "duplicate
  container name" line either, but the container gets no "name is required" line.
\<close>

theorem empty_name_silent_second_file:
  "validatePod (\<lambda>f. Inr (named_document [[], []])) ''pod.yaml''
     = ([''pod.yaml:12 name is required\<newline>'', ''pod.yaml:12 name is required\<newline>''], None)
   \<and> validatePod_raw (\<lambda>f. Inr (named_document [[]])) ''pod.yaml'' = ([], None)
   \<and> validatePod_raw (\<lambda>f. Inr (named_document [[], []])) ''pod.yaml'' = ([], None)"
  by code_simp

end
